theory Spec2Isabelle
  imports
    Main
    "HOL-Library.Multiset"
    "HOL-Library.Char_ord"
    "HOL-Library.List_Lexorder"
    "HOL-Library.Option_ord"
begin

section \<open>Schema (shared/schema.ts, in src/unnamed/part_005)\<close>

text \<open>
  Rows of the tables \<open>folders\<close>, \<open>files\<close>, \<open>share_links\<close> and \<open>audit_logs\<close>.
  A \<open>varchar\<close>/\<open>text\<close> column is a \<open>string\<close>, a nullable column an \<open>option\<close>,
  a \<open>timestamp\<close> the number of milliseconds since the epoch, an \<open>integer\<close> an
  \<open>int\<close> (its 32-bit range is checked on insert), a \<open>Buffer\<close> a list of bytes.
  The \<open>users\<close> table is not modelled: the acting principal of every operation is a row
  of it (passport loads \<open>req.user\<close> from that table), so the foreign keys to
  \<open>users.id\<close> hold.
\<close>

type_synonym timestamp = nat
type_synonym buffer = "char list"

record Folder =
  folder_id :: string
  folder_name :: string
  folder_parentId :: "string option"
  folder_ownerId :: string
  folder_createdAt :: timestamp
  folder_updatedAt :: timestamp
  folder_deletedAt :: "timestamp option"

record File =
  file_id :: string
  file_name :: string
  file_ext :: string
  file_mime :: string
  file_size :: int
  file_storageKey :: string
  file_checksum :: "string option"
  file_ownerId :: string
  file_folderId :: "string option"
  file_createdAt :: timestamp
  file_updatedAt :: timestamp
  file_deletedAt :: "timestamp option"

datatype resourceType = TFile | TFolder

record ShareLink =
  share_id :: string
  share_resourceType :: resourceType
  share_resourceId :: string
  share_passwordHash :: "string option"
  share_expiresAt :: "timestamp option"
  share_allowDownload :: bool
  share_createdBy :: string
  share_createdAt :: timestamp

datatype json =
    JNull
  | JBool bool
  | JNumber int
  | JString string
  | JObject "(string \<times> json) list"

record AuditLog =
  audit_id :: string
  audit_userId :: "string option"
  audit_action :: string
  audit_targetType :: string
  audit_targetId :: string
  audit_meta :: json
  audit_createdAt :: timestamp

record database =
  db_folders :: "Folder list"
  db_files :: "File list"
  db_shareLinks :: "ShareLink list"
  db_auditLogs :: "AuditLog list"

text \<open>
  What a JavaScript \<open>throw\<close> carries: the two \<open>Error\<close> messages the routes tell apart,
  a \<open>ZodError\<close>, an error of the database driver (a violated constraint), an error of
  the object store (a missing file, an unreachable bucket), and the \<open>TypeError\<close> of
  \<open>res.setHeader\<close> for a value with a character that a header cannot carry.
\<close>

datatype error =
    FileNotFound
  | Unauthorized
  | ZodError
  | DbError
  | StorageError
  | InvalidHeaderChar

section \<open>JavaScript truthiness of an optional string\<close>

text \<open>
  \<open>x ? a : b\<close> and \<open>x || null\<close> on a \<open>string | null | undefined\<close>: \<open>null\<close>,
  \<open>undefined\<close> and the empty string are falsy.
\<close>

definition truthy :: "string option \<Rightarrow> bool" where
  "truthy x = (case x of None \<Rightarrow> False | Some s \<Rightarrow> s \<noteq> [])"

definition or_null :: "string option \<Rightarrow> string option" where
  "or_null x = (if truthy x then x else None)"

section \<open>DatabaseStorage (src/server/storage.ts)\<close>

text \<open>
  Every method is one SQL statement. A \<open>select ... where id = ?\<close> destructured with
  \<open>const [row]\<close> is the first matching row; an \<open>update ... where\<close> maps over the
  table; a \<open>delete ... where\<close> filters it; an \<open>insert\<close> appends, with the column
  defaults (\<open>gen_random_uuid()\<close>, \<open>now()\<close>) supplied by the caller of the model as
  \<open>newId\<close> and \<open>now\<close>, and fails with \<open>DbError\<close> on a duplicate primary key or a
  dangling foreign key. \<open>new Date()\<close> is the parameter \<open>now\<close> as well.
\<close>

definition getFolderById :: "string \<Rightarrow> database \<Rightarrow> Folder option" where
  "getFolderById i d = find (\<lambda>r. folder_id r = i) (db_folders d)"

definition getFoldersByParent :: "string option \<Rightarrow> string \<Rightarrow> database \<Rightarrow> Folder list" where
  "getFoldersByParent parentId ownerId d =
     sort_key folder_name
       (filter (\<lambda>r. (if truthy parentId then folder_parentId r = parentId
                      else folder_parentId r = None)
                   \<and> folder_ownerId r = ownerId
                   \<and> folder_deletedAt r = None)
          (db_folders d))"

record insertFolder =
  insF_name :: string
  insF_parentId :: "string option"
  insF_ownerId :: string

definition createFolder ::
  "insertFolder \<Rightarrow> string \<Rightarrow> timestamp \<Rightarrow> database \<Rightarrow> error + (Folder \<times> database)" where
  "createFolder v newId now d =
     (if newId \<in> set (map folder_id (db_folders d)) then Inl DbError
      else if (case insF_parentId v of None \<Rightarrow> False
               | Some p \<Rightarrow> p \<notin> set (map folder_id (db_folders d))) then Inl DbError
      else
        let r = \<lparr> folder_id = newId, folder_name = insF_name v,
                  folder_parentId = insF_parentId v, folder_ownerId = insF_ownerId v,
                  folder_createdAt = now, folder_updatedAt = now,
                  folder_deletedAt = None \<rparr>
        in Inr (r, d\<lparr> db_folders := db_folders d @ [r] \<rparr>))"

text \<open>
  \<open>updates: Partial<Folder>\<close> as the one caller builds it: the parsed body of
  \<open>PATCH /api/folders/:id\<close>, an optional name and an optional parent id. A key that is
  \<open>undefined\<close> is left out of the \<open>set\<close>.
\<close>

record folderUpdates =
  updF_name :: "string option"
  updF_parentId :: "string option"

definition updateFolder ::
  "string \<Rightarrow> folderUpdates \<Rightarrow> timestamp \<Rightarrow> database \<Rightarrow> error + (Folder option \<times> database)" where
  "updateFolder i u now d =
     (case find (\<lambda>r. folder_id r = i) (db_folders d) of
        None \<Rightarrow> Inr (None, d)
      | Some r0 \<Rightarrow>
          if (case updF_parentId u of None \<Rightarrow> False
              | Some p \<Rightarrow> p \<notin> set (map folder_id (db_folders d))) then Inl DbError
          else
            let upd = (\<lambda>r. r\<lparr> folder_name := (case updF_name u of None \<Rightarrow> folder_name r | Some n \<Rightarrow> n),
                               folder_parentId := (case updF_parentId u of None \<Rightarrow> folder_parentId r
                                                   | Some p \<Rightarrow> Some p),
                               folder_updatedAt := now \<rparr>)
            in Inr (Some (upd r0),
                    d\<lparr> db_folders := map (\<lambda>r. if folder_id r = i then upd r else r) (db_folders d) \<rparr>))"

definition deleteFolder :: "string \<Rightarrow> timestamp \<Rightarrow> database \<Rightarrow> database" where
  "deleteFolder i now d =
     d\<lparr> db_folders :=
          map (\<lambda>r. if folder_id r = i then r\<lparr> folder_deletedAt := Some now \<rparr> else r)
            (db_folders d) \<rparr>"

definition getFileById :: "string \<Rightarrow> database \<Rightarrow> File option" where
  "getFileById i d = find (\<lambda>r. file_id r = i) (db_files d)"

definition getFilesByFolder :: "string option \<Rightarrow> string \<Rightarrow> database \<Rightarrow> File list" where
  "getFilesByFolder folderId ownerId d =
     sort_key file_name
       (filter (\<lambda>r. (if truthy folderId then file_folderId r = folderId
                      else file_folderId r = None)
                   \<and> file_ownerId r = ownerId
                   \<and> file_deletedAt r = None)
          (db_files d))"

record insertFile =
  insI_name :: string
  insI_ext :: string
  insI_mime :: string
  insI_size :: int
  insI_storageKey :: string
  insI_checksum :: "string option"
  insI_ownerId :: string
  insI_folderId :: "string option"

definition createFile ::
  "insertFile \<Rightarrow> string \<Rightarrow> timestamp \<Rightarrow> database \<Rightarrow> error + (File \<times> database)" where
  "createFile v newId now d =
     (if newId \<in> set (map file_id (db_files d)) then Inl DbError
      else if (case insI_folderId v of None \<Rightarrow> False
               | Some p \<Rightarrow> p \<notin> set (map folder_id (db_folders d))) then Inl DbError
      else if insI_size v < - 2147483648 \<or> 2147483647 < insI_size v then Inl DbError
      else
        let r = \<lparr> file_id = newId, file_name = insI_name v, file_ext = insI_ext v,
                  file_mime = insI_mime v, file_size = insI_size v,
                  file_storageKey = insI_storageKey v, file_checksum = insI_checksum v,
                  file_ownerId = insI_ownerId v, file_folderId = insI_folderId v,
                  file_createdAt = now, file_updatedAt = now, file_deletedAt = None \<rparr>
        in Inr (r, d\<lparr> db_files := db_files d @ [r] \<rparr>))"



definition deleteFile :: "string \<Rightarrow> timestamp \<Rightarrow> database \<Rightarrow> database" where
  "deleteFile i now d =
     d\<lparr> db_files :=
          map (\<lambda>r. if file_id r = i then r\<lparr> file_deletedAt := Some now \<rparr> else r)
            (db_files d) \<rparr>"

definition restoreFromTrash :: "string \<Rightarrow> resourceType \<Rightarrow> timestamp \<Rightarrow> database \<Rightarrow> database" where
  "restoreFromTrash i ty now d =
     (case ty of
        TFile \<Rightarrow>
          d\<lparr> db_files :=
               map (\<lambda>r. if file_id r = i
                         then r\<lparr> file_deletedAt := None, file_updatedAt := now \<rparr> else r)
                 (db_files d) \<rparr>
      | TFolder \<Rightarrow>
          d\<lparr> db_folders :=
               map (\<lambda>r. if folder_id r = i
                         then r\<lparr> folder_deletedAt := None, folder_updatedAt := now \<rparr> else r)
                 (db_folders d) \<rparr>)"



subsection \<open>Query conditions\<close>

text \<open>
  An argument of drizzle's \<open>and(...)\<close> is an SQL expression over the row, or, when the
  caller passes something else, a plain JavaScript value, which drizzle binds as a
  query parameter: a boolean then stands in the \<open>where\<close> clause as itself.
  \<open>x === false\<close> is JavaScript's strict equality: an SQL expression is an object and
  is never strictly equal to a boolean.
\<close>

datatype 'r operand = SQL "'r \<Rightarrow> bool" | JsValue bool

definition strict_equals_false :: "'r operand \<Rightarrow> bool" where
  "strict_equals_false x = (case x of SQL _ \<Rightarrow> False | JsValue b \<Rightarrow> \<not> b)"

definition and_conditions :: "'r operand list \<Rightarrow> 'r \<Rightarrow> bool" where
  "and_conditions cs r = list_all (\<lambda>c. case c of SQL p \<Rightarrow> p r | JsValue b \<Rightarrow> b) cs"

text \<open>
  \<open>orderBy(desc(col))\<close> on a nullable timestamp: PostgreSQL sorts \<open>NULL\<close> as larger
  than every value, so descending order starts with the \<open>NULL\<close>s. Sorting ascending
  by \<open>desc\<close> of the column gives that order (\<open>None\<close> is least in \<open>Option_ord\<close>).
\<close>

definition desc :: "timestamp option \<Rightarrow> int option" where
  "desc t = map_option (\<lambda>n. - int n) t"

record trashItems =
  trash_files :: "File list"
  trash_folders :: "Folder list"

definition getTrashItems :: "string \<Rightarrow> database \<Rightarrow> trashItems" where
  "getTrashItems ownerId d =
     (let trashedFiles =
            sort_key (\<lambda>r. desc (file_deletedAt r))
              (filter (and_conditions
                         [SQL (\<lambda>r. file_ownerId r = ownerId),
                          JsValue (strict_equals_false (SQL (\<lambda>r::File. file_deletedAt r = None)))])
                 (db_files d));
          trashedFolders =
            sort_key (\<lambda>r. desc (folder_deletedAt r))
              (filter (and_conditions
                         [SQL (\<lambda>r. folder_ownerId r = ownerId),
                          JsValue (strict_equals_false (SQL (\<lambda>r::Folder. folder_deletedAt r = None)))])
                 (db_folders d))
      in \<lparr> trash_files = trashedFiles, trash_folders = trashedFolders \<rparr>)"

subsection \<open>Search\<close>





subsection \<open>Share links and the audit log\<close>

record insertShareLink =
  insS_resourceType :: resourceType
  insS_resourceId :: string
  insS_expiresAt :: "timestamp option"
  insS_passwordHash :: "string option"
  insS_allowDownload :: bool
  insS_createdBy :: string

definition createShareLink ::
  "insertShareLink \<Rightarrow> string \<Rightarrow> timestamp \<Rightarrow> database \<Rightarrow> error + (ShareLink \<times> database)" where
  "createShareLink v newId now d =
     (if newId \<in> set (map share_id (db_shareLinks d)) then Inl DbError
      else
        let r = \<lparr> share_id = newId, share_resourceType = insS_resourceType v,
                  share_resourceId = insS_resourceId v,
                  share_passwordHash = insS_passwordHash v,
                  share_expiresAt = insS_expiresAt v,
                  share_allowDownload = insS_allowDownload v,
                  share_createdBy = insS_createdBy v, share_createdAt = now \<rparr>
        in Inr (r, d\<lparr> db_shareLinks := db_shareLinks d @ [r] \<rparr>))"

record insertAuditLog =
  insA_userId :: string
  insA_action :: string
  insA_targetType :: string
  insA_targetId :: string
  insA_meta :: json

definition createAuditLog ::
  "insertAuditLog \<Rightarrow> string \<Rightarrow> timestamp \<Rightarrow> database \<Rightarrow> error + (AuditLog \<times> database)" where
  "createAuditLog v newId now d =
     (if newId \<in> set (map audit_id (db_auditLogs d)) then Inl DbError
      else
        let r = \<lparr> audit_id = newId, audit_userId = Some (insA_userId v),
                  audit_action = insA_action v, audit_targetType = insA_targetType v,
                  audit_targetId = insA_targetId v, audit_meta = insA_meta v,
                  audit_createdAt = now \<rparr>
        in Inr (r, d\<lparr> db_auditLogs := db_auditLogs d @ [r] \<rparr>))"

section \<open>The world the server runs in\<close>

text \<open>
  The server's state is the database, the local disk under \<open>LOCAL_STORAGE_PATH\<close>
  (a map from paths to contents) and the S3 bucket, whose state \<open>'b\<close> is known only to
  the S3 client. \<open>calls\<close> is a ghost field: the calls the server has made to its two
  collaborators, the database (\<open>storage\<close>) and the object store
  (\<open>storageService\<close>), in program order, each with the name of the method and the id
  or key it was given. It is there for the claims about the order of effects.
\<close>

type_synonym filesystem = "string \<rightharpoonup> buffer"

record 'b store =
  disk :: filesystem
  bucket :: 'b

datatype call = DatabaseCall string string | ObjectStoreCall string string

record 'b world =
  db :: database
  store :: "'b store"
  calls :: "call list"

text \<open>
  An \<open>async\<close> function is a function from the world to a result and the new world. A
  rejected promise is \<open>Inl\<close>; what the function had changed before it threw stays
  changed (no call of the server runs in a transaction). \<open>await m f\<close> is
  \<open>const x = await m; f x\<close>, and \<open>try_catch m h\<close> is \<open>try { m } catch (e) { h e }\<close>.
\<close>

type_synonym ('b, 'a) async = "'b world \<Rightarrow> (error + 'a) \<times> 'b world"

definition resolve :: "'a \<Rightarrow> ('b, 'a) async" where
  "resolve a w = (Inr a, w)"

definition throw :: "error \<Rightarrow> ('b, 'a) async" where
  "throw e w = (Inl e, w)"

definition await :: "('b, 'a) async \<Rightarrow> ('a \<Rightarrow> ('b, 'c) async) \<Rightarrow> ('b, 'c) async" where
  "await m f w = (case m w of (Inl e, w') \<Rightarrow> (Inl e, w') | (Inr a, w') \<Rightarrow> f a w')"

definition try_catch :: "('b, 'a) async \<Rightarrow> (error \<Rightarrow> ('b, 'a) async) \<Rightarrow> ('b, 'a) async" where
  "try_catch m h w = (case m w of (Inl e, w') \<Rightarrow> h e w' | (Inr a, w') \<Rightarrow> (Inr a, w'))"

text \<open>Calls of the database: a select, an update or delete, an insert.\<close>

definition run_select :: "call \<Rightarrow> (database \<Rightarrow> 'a) \<Rightarrow> ('b, 'a) async" where
  "run_select c f w = (Inr (f (db w)), w\<lparr> calls := calls w @ [c] \<rparr>)"

definition run_update :: "call \<Rightarrow> (database \<Rightarrow> database) \<Rightarrow> ('b, unit) async" where
  "run_update c f w = (Inr (), w\<lparr> db := f (db w), calls := calls w @ [c] \<rparr>)"

definition run_insert :: "call \<Rightarrow> (database \<Rightarrow> error + ('a \<times> database)) \<Rightarrow> ('b, 'a) async" where
  "run_insert c f w =
     (case f (db w) of
        Inl e \<Rightarrow> (Inl e, w\<lparr> calls := calls w @ [c] \<rparr>)
      | Inr (a, d') \<Rightarrow> (Inr a, w\<lparr> db := d', calls := calls w @ [c] \<rparr>))"

text \<open>A call of the object store: it sees and changes the store only.\<close>

definition object_store ::
  "call \<Rightarrow> ('b store \<Rightarrow> (error + 'a) \<times> 'b store) \<Rightarrow> ('b, 'a) async" where
  "object_store c f w =
     (case f (store w) of (r, s') \<Rightarrow> (r, w\<lparr> store := s', calls := calls w @ [c] \<rparr>))"

section \<open>StorageService (server/services/s3Service.ts, in src/unnamed/part_006)\<close>

record part =
  part_ETag :: string
  part_PartNumber :: int

text \<open>
  The interface \<open>StorageService\<close>, with the methods the server calls.
  \<open>createMultipartUpload\<close> takes the value of \<open>randomUUID()\<close> as its third argument
  and returns \<open>(uploadId, urls)\<close>.
\<close>

record 'b StorageService =
  uploadFile :: "string \<Rightarrow> buffer \<Rightarrow> string \<Rightarrow> 'b store \<Rightarrow> (error + unit) \<times> 'b store"
  getFile :: "string \<Rightarrow> 'b store \<Rightarrow> (error + buffer) \<times> 'b store"
  StorageService_deleteFile :: "string \<Rightarrow> 'b store \<Rightarrow> (error + unit) \<times> 'b store"
  getSignedDownloadUrl :: "string \<Rightarrow> 'b store \<Rightarrow> (error + string) \<times> 'b store"
  createMultipartUpload ::
    "string \<Rightarrow> string \<Rightarrow> string \<Rightarrow> 'b store \<Rightarrow> (error + (string \<times> string list)) \<times> 'b store"
  completeMultipartUpload ::
    "string \<Rightarrow> string \<Rightarrow> part list \<Rightarrow> 'b store \<Rightarrow> (error + unit) \<times> 'b store"

subsection \<open>LocalStorageService\<close>

text \<open>
  \<open>path.join(basePath, key)\<close> for a key without empty, \<open>.\<close> or \<open>..\<close> segments, which
  is what \<open>generateStorageKey\<close> builds. \<open>fs.readFile\<close> and \<open>fs.unlink\<close> reject when
  the path names no file; \<open>fs.mkdir\<close> with \<open>recursive\<close> and \<open>fs.writeFile\<close> create
  or overwrite.
\<close>

definition getFilePath :: "string \<Rightarrow> string \<Rightarrow> string" where
  "getFilePath basePath key = basePath @ ''/'' @ key"

fun decimal :: "nat \<Rightarrow> string" where
  "decimal n =
     (if n < 10 then [''0123456789'' ! n]
      else decimal (n div 10) @ [''0123456789'' ! (n mod 10)])"

declare decimal.simps [simp del]

definition LocalStorageService :: "string \<Rightarrow> 'b StorageService" where
  "LocalStorageService basePath =
     \<lparr> uploadFile = (\<lambda>key buf contentType s.
         (Inr (), s\<lparr> disk := (disk s)(getFilePath basePath key \<mapsto> buf) \<rparr>)),
       getFile = (\<lambda>key s.
         (case disk s (getFilePath basePath key) of
            None \<Rightarrow> (Inl StorageError, s)
          | Some buf \<Rightarrow> (Inr buf, s))),
       StorageService_deleteFile = (\<lambda>key s.
         (case disk s (getFilePath basePath key) of
            None \<Rightarrow> (Inl StorageError, s)
          | Some buf \<Rightarrow> (Inr (), s\<lparr> disk := (disk s)(getFilePath basePath key := None) \<rparr>))),
       getSignedDownloadUrl = (\<lambda>key s. (Inr (''/api/files/download/'' @ key), s)),
       createMultipartUpload = (\<lambda>key contentType uuid s.
         (Inr (uuid,
               map (\<lambda>i. ''/api/upload/local/'' @ key @ ''/part/'' @ decimal (i + 1)
                          @ ''?uploadId='' @ uuid) [0 ..< 10]), s)),
       completeMultipartUpload = (\<lambda>key uploadId parts s. (Inr (), s)) \<rparr>"

subsection \<open>S3StorageService\<close>

text \<open>
  The S3 client is a collaborator outside the repository: what \<open>client.send\<close> does for
  each command, and what \<open>getSignedUrl\<close> returns, are parameters. \<open>GetObject\<close>
  answers with a stream of chunks.
\<close>

record 'b S3Client =
  send_PutObject :: "string \<Rightarrow> buffer \<Rightarrow> string \<Rightarrow> 'b \<Rightarrow> (error + unit) \<times> 'b"
  send_GetObject :: "string \<Rightarrow> 'b \<Rightarrow> (error + buffer list) \<times> 'b"
  send_DeleteObject :: "string \<Rightarrow> 'b \<Rightarrow> (error + unit) \<times> 'b"
  send_CreateMultipartUpload :: "string \<Rightarrow> string \<Rightarrow> 'b \<Rightarrow> (error + string) \<times> 'b"
  send_CompleteMultipartUpload :: "string \<Rightarrow> string \<Rightarrow> part list \<Rightarrow> 'b \<Rightarrow> (error + unit) \<times> 'b"
  getSignedUrl_GetObject :: "string \<Rightarrow> nat \<Rightarrow> string"
  getSignedUrl_UploadPart :: "string \<Rightarrow> nat \<Rightarrow> string \<Rightarrow> nat \<Rightarrow> string"

definition on_bucket :: "('b \<Rightarrow> (error + 'a) \<times> 'b) \<Rightarrow> 'b store \<Rightarrow> (error + 'a) \<times> 'b store" where
  "on_bucket f s = (case f (bucket s) of (r, b') \<Rightarrow> (r, s\<lparr> bucket := b' \<rparr>))"

definition S3StorageService :: "'b S3Client \<Rightarrow> 'b StorageService" where
  "S3StorageService client =
     \<lparr> uploadFile = (\<lambda>key buf contentType. on_bucket (send_PutObject client key buf contentType)),
       getFile = (\<lambda>key. on_bucket (\<lambda>b.
         (case send_GetObject client key b of
            (Inl e, b') \<Rightarrow> (Inl e, b')
          | (Inr chunks, b') \<Rightarrow> (Inr (concat chunks), b')))),
       StorageService_deleteFile = (\<lambda>key. on_bucket (send_DeleteObject client key)),
       getSignedDownloadUrl = (\<lambda>key s. (Inr (getSignedUrl_GetObject client key 3600), s)),
       createMultipartUpload = (\<lambda>key contentType uuid. on_bucket (\<lambda>b.
         (case send_CreateMultipartUpload client key contentType b of
            (Inl e, b') \<Rightarrow> (Inl e, b')
          | (Inr UploadId, b') \<Rightarrow>
              (Inr (UploadId,
                    map (\<lambda>partNumber. getSignedUrl_UploadPart client key partNumber UploadId 3600)
                      [1 ..< 11]), b')))),
       completeMultipartUpload = (\<lambda>key uploadId parts.
         on_bucket (send_CompleteMultipartUpload client key uploadId parts)) \<rparr>"

text \<open>The exported \<open>storageService\<close>: chosen once, from the environment.\<close>

record config =
  STORAGE_DRIVER :: "string option"
  LOCAL_STORAGE_PATH :: "string option"
  SHARE_BASE_URL :: "string option"


section \<open>FileService (server/services/fileService.ts, in src/unnamed/part_006)\<close>

text \<open>
  Functions of the Node library and of zod are parameters: \<open>path.extname\<close>,
  \<open>path.basename\<close>, \<open>String.prototype.toLowerCase\<close>, the SHA-256 digest in
  hexadecimal, the reading of an ISO date-time (\<open>None\<close> when
  \<open>z.string().datetime()\<close> refuses the string), and Node's test of a header value,
  \<open>checkInvalidHeaderChar\<close>, true of a string with a character other than the tab
  and the characters from U+0020 to U+007E and from U+0080 to U+00FF.
\<close>

record platform =
  path_extname :: "string \<Rightarrow> string"
  path_basename :: "string \<Rightarrow> string \<Rightarrow> string"
  toLowerCase :: "string \<Rightarrow> string"
  sha256_hex :: "buffer \<Rightarrow> string"
  parse_datetime :: "string \<Rightarrow> timestamp option"
  checkInvalidHeaderChar :: "string \<Rightarrow> bool"

text \<open>
  What one call draws from the clock and from the random generators: \<open>new Date()\<close>
  and the column default \<open>now()\<close>; the local year, month (\<open>getMonth()\<close>, from 0) and
  day of \<open>new Date()\<close>; \<open>crypto.randomUUID()\<close> of \<open>generateStorageKey\<close>;
  \<open>randomUUID()\<close> of the local \<open>createMultipartUpload\<close>; and \<open>gen_random_uuid()\<close>
  for the row the call inserts and for its audit-log row.
\<close>

record entropy =
  env_now :: timestamp
  env_fullYear :: nat
  env_month :: nat
  env_date :: nat
  env_randomUUID :: string
  env_uploadUUID :: string
  env_rowId :: string
  env_auditId :: string

record FileUploadResult =
  result_fileId :: string
  result_storageKey :: string

record UploadInitResponse =
  init_uploadId :: string
  init_presignedUrls :: "string list"
  init_fileId :: string

definition padStart2 :: "string \<Rightarrow> string" where
  "padStart2 s = replicate (2 - length s) CHR ''0'' @ s"

definition generateStorageKey :: "platform \<Rightarrow> entropy \<Rightarrow> string \<Rightarrow> string \<Rightarrow> string" where
  "generateStorageKey pf e ownerId filename =
     (let year = decimal (env_fullYear e);
          month = padStart2 (decimal (env_month e + 1));
          day = padStart2 (decimal (env_date e));
          uuid = env_randomUUID e;
          ext = path_extname pf filename
      in ownerId @ ''/'' @ year @ ''/'' @ month @ ''/'' @ day @ ''/'' @ uuid @ ext)"

definition calculateChecksum :: "platform \<Rightarrow> buffer \<Rightarrow> string" where
  "calculateChecksum pf buf = sha256_hex pf buf"

definition mimeTypes :: "(string \<times> string) list" where
  "mimeTypes =
     [(''.jpg'', ''image/jpeg''), (''.jpeg'', ''image/jpeg''), (''.png'', ''image/png''),
      (''.gif'', ''image/gif''), (''.webp'', ''image/webp''), (''.svg'', ''image/svg+xml''),
      (''.mp4'', ''video/mp4''), (''.mov'', ''video/quicktime''), (''.avi'', ''video/x-msvideo''),
      (''.mkv'', ''video/x-matroska''), (''.webm'', ''video/webm''),
      (''.mp3'', ''audio/mpeg''), (''.wav'', ''audio/wav''), (''.ogg'', ''audio/ogg''),
      (''.m4a'', ''audio/mp4''), (''.flac'', ''audio/flac''),
      (''.pdf'', ''application/pdf''), (''.doc'', ''application/msword''),
      (''.docx'', ''application/vnd.openxmlformats-officedocument.wordprocessingml.document''),
      (''.txt'', ''text/plain''), (''.rtf'', ''application/rtf''),
      (''.zip'', ''application/zip''), (''.rar'', ''application/vnd.rar''),
      (''.7z'', ''application/x-7z-compressed''), (''.tar'', ''application/x-tar''),
      (''.gz'', ''application/gzip''),
      (''.js'', ''text/javascript''), (''.ts'', ''text/typescript''),
      (''.tsx'', ''text/typescript''), (''.jsx'', ''text/javascript''),
      (''.html'', ''text/html''), (''.css'', ''text/css''), (''.json'', ''application/json'')]"

text \<open>
  \<open>path.extname\<close> gives the empty string or a string that starts with a dot, so the
  lookup never reaches a property inherited from \<open>Object.prototype\<close>.
\<close>

definition getMimeTypeFromExtension :: "platform \<Rightarrow> string \<Rightarrow> string" where
  "getMimeTypeFromExtension pf ext =
     (case map_of mimeTypes (toLowerCase pf ext) of
        None \<Rightarrow> ''application/octet-stream''
      | Some m \<Rightarrow> m)"

definition initializeUpload ::
  "platform \<Rightarrow> 'b StorageService \<Rightarrow> entropy \<Rightarrow> string \<Rightarrow> int \<Rightarrow> string \<Rightarrow> string option
     \<Rightarrow> ('b, UploadInitResponse) async" where
  "initializeUpload pf svc e filename size' ownerId folderId =
     (let ext = path_extname pf filename;
          mime = getMimeTypeFromExtension pf ext;
          storageKey = generateStorageKey pf e ownerId filename
      in
        await (run_insert (DatabaseCall ''createFile'' (env_rowId e))
                 (createFile
                    \<lparr> insI_name = path_basename pf filename ext, insI_ext = drop 1 ext,
                      insI_mime = mime, insI_size = size', insI_storageKey = storageKey,
                      insI_checksum = None, insI_ownerId = ownerId,
                      insI_folderId = or_null folderId \<rparr>
                    (env_rowId e) (env_now e)))
        (\<lambda>file.
        await (object_store (ObjectStoreCall ''createMultipartUpload'' storageKey)
                 (createMultipartUpload svc storageKey mime (env_uploadUUID e)))
        (\<lambda>(uploadId, urls).
        await (run_insert (DatabaseCall ''createAuditLog'' ''file_upload_initiated'')
                 (createAuditLog
                    \<lparr> insA_userId = ownerId, insA_action = ''file_upload_initiated'',
                      insA_targetType = ''file'', insA_targetId = file_id file,
                      insA_meta = JObject [(''filename'', JString filename),
                                           (''size'', JNumber size'),
                                           (''storageKey'', JString storageKey)] \<rparr>
                    (env_auditId e) (env_now e)))
        (\<lambda>_.
        resolve \<lparr> init_uploadId = uploadId, init_presignedUrls = urls,
                  init_fileId = file_id file \<rparr>))))"

definition completeUpload ::
  "'b StorageService \<Rightarrow> entropy \<Rightarrow> string \<Rightarrow> string \<Rightarrow> part list \<Rightarrow> ('b, FileUploadResult) async" where
  "completeUpload svc e fileId uploadId parts =
     await (run_select (DatabaseCall ''getFileById'' fileId) (getFileById fileId))
     (\<lambda>found.
     case found of
       None \<Rightarrow> throw FileNotFound
     | Some file \<Rightarrow>
         await (object_store (ObjectStoreCall ''completeMultipartUpload'' (file_storageKey file))
                  (completeMultipartUpload svc (file_storageKey file) uploadId parts))
         (\<lambda>_.
         await (run_insert (DatabaseCall ''createAuditLog'' ''file_uploaded'')
                  (createAuditLog
                     \<lparr> insA_userId = file_ownerId file, insA_action = ''file_uploaded'',
                       insA_targetType = ''file'', insA_targetId = file_id file,
                       insA_meta = JObject [(''storageKey'', JString (file_storageKey file))] \<rparr>
                     (env_auditId e) (env_now e)))
         (\<lambda>_.
         resolve \<lparr> result_fileId = file_id file,
                   result_storageKey = file_storageKey file \<rparr>)))"

definition uploadLocal ::
  "platform \<Rightarrow> 'b StorageService \<Rightarrow> entropy \<Rightarrow> string \<Rightarrow> buffer \<Rightarrow> string \<Rightarrow> string option
     \<Rightarrow> ('b, FileUploadResult) async" where
  "uploadLocal pf svc e filename buf ownerId folderId =
     (let ext = path_extname pf filename;
          mime = getMimeTypeFromExtension pf ext;
          storageKey = generateStorageKey pf e ownerId filename;
          checksum = calculateChecksum pf buf
      in
        await (object_store (ObjectStoreCall ''uploadFile'' storageKey)
                 (uploadFile svc storageKey buf mime))
        (\<lambda>_.
        await (run_insert (DatabaseCall ''createFile'' (env_rowId e))
                 (createFile
                    \<lparr> insI_name = path_basename pf filename ext, insI_ext = drop 1 ext,
                      insI_mime = mime, insI_size = int (length buf),
                      insI_storageKey = storageKey, insI_checksum = Some checksum,
                      insI_ownerId = ownerId, insI_folderId = or_null folderId \<rparr>
                    (env_rowId e) (env_now e)))
        (\<lambda>file.
        await (run_insert (DatabaseCall ''createAuditLog'' ''file_uploaded'')
                 (createAuditLog
                    \<lparr> insA_userId = ownerId, insA_action = ''file_uploaded'',
                      insA_targetType = ''file'', insA_targetId = file_id file,
                      insA_meta = JObject [(''filename'', JString filename),
                                           (''size'', JNumber (int (length buf))),
                                           (''storageKey'', JString storageKey)] \<rparr>
                    (env_auditId e) (env_now e)))
        (\<lambda>_.
        resolve \<lparr> result_fileId = file_id file,
                  result_storageKey = file_storageKey file \<rparr>))))"


definition FileService_deleteFile :: "entropy \<Rightarrow> string \<Rightarrow> string \<Rightarrow> ('b, unit) async" where
  "FileService_deleteFile e fileId ownerId =
     await (run_select (DatabaseCall ''getFileById'' fileId) (getFileById fileId))
     (\<lambda>found.
     case found of
       None \<Rightarrow> throw FileNotFound
     | Some file \<Rightarrow>
         if file_ownerId file \<noteq> ownerId then throw Unauthorized
         else
           await (run_update (DatabaseCall ''deleteFile'' fileId) (deleteFile fileId (env_now e)))
           (\<lambda>_.
           await (run_insert (DatabaseCall ''createAuditLog'' ''file_deleted'')
                    (createAuditLog
                       \<lparr> insA_userId = ownerId, insA_action = ''file_deleted'',
                         insA_targetType = ''file'', insA_targetId = fileId,
                         insA_meta = JObject [(''filename'', JString (file_name file)),
                                              (''storageKey'', JString (file_storageKey file))] \<rparr>
                       (env_auditId e) (env_now e)))
           (\<lambda>_. resolve ())))"


section \<open>Routes (server/routes.ts, the second part of src/server/auth.ts)\<close>

text \<open>
  A handler runs behind \<open>requireAuth\<close>: \<open>user\<close> is \<open>req.user.id\<close>. A request body
  is given with its fields already of their JSON types (\<open>None\<close> for an absent field),
  so \<open>schema.parse\<close> throws a \<open>ZodError\<close> only for a missing required field, a
  length out of bounds or a malformed date. The length of a string counts its
  characters. \<open>respond m h\<close> is the handler's outer \<open>try { m } catch (error) { h }\<close>.
  The request is a \<open>GET\<close>, \<open>POST\<close>, \<open>PATCH\<close> or \<open>DELETE\<close> as the route says, without
  conditional headers (\<open>If-None-Match\<close>, \<open>If-Modified-Since\<close>), so Express turns no
  answer into 304.
\<close>

datatype body =
    NoBody
  | Message string
  | InvalidInput
  | FileJson "File option"
  | FolderJson "Folder option"
  | ShareJson string string "timestamp option" bool
  | Attachment string string int buffer

datatype response = Status nat body | Redirect string

definition respond ::
  "('b, response) async \<Rightarrow> (error \<Rightarrow> response) \<Rightarrow> 'b world \<Rightarrow> response \<times> 'b world" where
  "respond m h w = (case m w of (Inl e, w') \<Rightarrow> (h e, w') | (Inr r, w') \<Rightarrow> (r, w'))"

definition internal_error :: "error \<Rightarrow> response" where
  "internal_error e = Status 500 (Message ''Internal server error'')"

definition invalid_or_internal :: "error \<Rightarrow> response" where
  "invalid_or_internal e =
     (if e = ZodError then Status 400 InvalidInput
      else Status 500 (Message ''Internal server error''))"

definition z_name :: "string \<Rightarrow> bool" where
  "z_name n = (1 \<le> length n \<and> length n \<le> 255)"

definition json_strings :: "(string \<times> string option) list \<Rightarrow> json" where
  "json_strings kvs =
     JObject (List.map_filter (\<lambda>(k, v). map_option (\<lambda>x. (k, JString x)) v) kvs)"

definition resourceType_string :: "resourceType \<Rightarrow> string" where
  "resourceType_string ty = (case ty of TFile \<Rightarrow> ''file'' | TFolder \<Rightarrow> ''folder'')"

subsection \<open>Folders\<close>

record folderBody =
  fb_name :: "string option"
  fb_parentId :: "string option"

definition POST_api_folders :: "entropy \<Rightarrow> string \<Rightarrow> folderBody \<Rightarrow> 'b world \<Rightarrow> response \<times> 'b world" where
  "POST_api_folders e user reqBody =
     respond
       (case fb_name reqBody of
          None \<Rightarrow> throw ZodError
        | Some name \<Rightarrow>
            if \<not> z_name name then throw ZodError
            else
              await (run_insert (DatabaseCall ''createFolder'' (env_rowId e))
                       (createFolder
                          \<lparr> insF_name = name, insF_parentId = or_null (fb_parentId reqBody),
                            insF_ownerId = user \<rparr>
                          (env_rowId e) (env_now e)))
              (\<lambda>folder.
              await (run_insert (DatabaseCall ''createAuditLog'' ''folder_created'')
                       (createAuditLog
                          \<lparr> insA_userId = user, insA_action = ''folder_created'',
                            insA_targetType = ''folder'', insA_targetId = folder_id folder,
                            insA_meta = json_strings [(''name'', Some name),
                                                      (''parentId'', fb_parentId reqBody)] \<rparr>
                          (env_auditId e) (env_now e)))
              (\<lambda>_. resolve (Status 201 (FolderJson (Some folder))))))
       invalid_or_internal"

definition PATCH_api_folders_id ::
  "entropy \<Rightarrow> string \<Rightarrow> string \<Rightarrow> folderUpdates \<Rightarrow> 'b world \<Rightarrow> response \<times> 'b world" where
  "PATCH_api_folders_id e user i updates =
     respond
       (if (case updF_name updates of None \<Rightarrow> False | Some n \<Rightarrow> \<not> z_name n) then throw ZodError
        else
          await (run_select (DatabaseCall ''getFolderById'' i) (getFolderById i))
          (\<lambda>found.
          if (case found of None \<Rightarrow> True | Some folder \<Rightarrow> folder_ownerId folder \<noteq> user)
          then resolve (Status 404 (Message ''Folder not found''))
          else
            await (run_insert (DatabaseCall ''updateFolder'' i) (updateFolder i updates (env_now e)))
            (\<lambda>updatedFolder.
            await (run_insert (DatabaseCall ''createAuditLog'' ''folder_updated'')
                     (createAuditLog
                        \<lparr> insA_userId = user, insA_action = ''folder_updated'',
                          insA_targetType = ''folder'', insA_targetId = i,
                          insA_meta = JObject [(''updates'',
                            json_strings [(''name'', updF_name updates),
                                          (''parentId'', updF_parentId updates)])] \<rparr>
                        (env_auditId e) (env_now e)))
            (\<lambda>_. resolve (Status 200 (FolderJson updatedFolder))))))
       invalid_or_internal"

definition DELETE_api_folders_id :: "entropy \<Rightarrow> string \<Rightarrow> string \<Rightarrow> 'b world \<Rightarrow> response \<times> 'b world" where
  "DELETE_api_folders_id e user i =
     respond
       (await (run_select (DatabaseCall ''getFolderById'' i) (getFolderById i))
        (\<lambda>found.
        case found of
          None \<Rightarrow> resolve (Status 404 (Message ''Folder not found''))
        | Some folder \<Rightarrow>
            if folder_ownerId folder \<noteq> user
            then resolve (Status 404 (Message ''Folder not found''))
            else
              await (run_update (DatabaseCall ''deleteFolder'' i) (deleteFolder i (env_now e)))
              (\<lambda>_.
              await (run_insert (DatabaseCall ''createAuditLog'' ''folder_deleted'')
                       (createAuditLog
                          \<lparr> insA_userId = user, insA_action = ''folder_deleted'',
                            insA_targetType = ''folder'', insA_targetId = i,
                            insA_meta = JObject [(''name'', JString (folder_name folder))] \<rparr>
                          (env_auditId e) (env_now e)))
              (\<lambda>_. resolve (Status 204 NoBody)))))
       internal_error"

subsection \<open>Files\<close>



definition DELETE_api_files_id :: "entropy \<Rightarrow> string \<Rightarrow> string \<Rightarrow> 'b world \<Rightarrow> response \<times> 'b world" where
  "DELETE_api_files_id e user i =
     respond
       (await (FileService_deleteFile e i user) (\<lambda>_. resolve (Status 204 NoBody)))
       (\<lambda>error.
          if error = FileNotFound then Status 404 (Message ''File not found'')
          else if error = Unauthorized then Status 403 (Message ''Unauthorized'')
          else Status 500 (Message ''Internal server error''))"


subsection \<open>Share links\<close>

record shareBody =
  sb_resourceType :: resourceType
  sb_resourceId :: string
  sb_expiresAt :: "string option"
  sb_password :: "string option"
  sb_allowDownload :: "bool option"

definition POST_api_shares ::
  "platform \<Rightarrow> config \<Rightarrow> entropy \<Rightarrow> string \<Rightarrow> shareBody \<Rightarrow> 'b world \<Rightarrow> response \<times> 'b world" where
  "POST_api_shares pf cfg e user reqBody =
     respond
       (if (case sb_expiresAt reqBody of None \<Rightarrow> False | Some x \<Rightarrow> parse_datetime pf x = None)
        then throw ZodError
        else
          let allowDownload = (case sb_allowDownload reqBody of None \<Rightarrow> True | Some a \<Rightarrow> a);
              passwordHash = (case or_null (sb_password reqBody) of
                                None \<Rightarrow> None
                              | Some pw \<Rightarrow> Some (sha256_hex pf pw))
          in
            await (run_insert (DatabaseCall ''createShareLink'' (env_rowId e))
                     (createShareLink
                        \<lparr> insS_resourceType = sb_resourceType reqBody,
                          insS_resourceId = sb_resourceId reqBody,
                          insS_expiresAt = (case or_null (sb_expiresAt reqBody) of
                                              None \<Rightarrow> None
                                            | Some x \<Rightarrow> parse_datetime pf x),
                          insS_passwordHash = passwordHash,
                          insS_allowDownload = allowDownload,
                          insS_createdBy = user \<rparr>
                        (env_rowId e) (env_now e)))
            (\<lambda>shareLink.
            await (run_insert (DatabaseCall ''createAuditLog'' ''share_link_created'')
                     (createAuditLog
                        \<lparr> insA_userId = user, insA_action = ''share_link_created'',
                          insA_targetType = resourceType_string (sb_resourceType reqBody),
                          insA_targetId = sb_resourceId reqBody,
                          insA_meta = JObject [(''shareId'', JString (share_id shareLink))] \<rparr>
                        (env_auditId e) (env_now e)))
            (\<lambda>_.
            resolve (Status 200
              (ShareJson (share_id shareLink)
                 ((case or_null (SHARE_BASE_URL cfg) of
                     None \<Rightarrow> ''http://localhost:5000'' | Some u \<Rightarrow> u)
                    @ ''/s/'' @ share_id shareLink)
                 (share_expiresAt shareLink) (share_allowDownload shareLink))))))
       invalid_or_internal"

section \<open>Example inputs\<close>

text \<open>
  Concrete rows, worlds and requests, at which the theorems below are evaluated: two
  users, \<open>alice\<close> and \<open>bob\<close>; a file and a folder of alice's; a local disk that is
  empty or holds the file's bytes; an S3 client that is never reached.
\<close>

definition alice_file :: File where
  "alice_file =
     \<lparr> file_id = ''f1'', file_name = ''report'', file_ext = ''pdf'',
       file_mime = ''application/pdf'', file_size = 3,
       file_storageKey = ''alice/2024/01/05/k1.pdf'', file_checksum = None,
       file_ownerId = ''alice'', file_folderId = None,
       file_createdAt = 5, file_updatedAt = 5, file_deletedAt = None \<rparr>"

definition alice_folder :: Folder where
  "alice_folder =
     \<lparr> folder_id = ''d1'', folder_name = ''docs'', folder_parentId = None,
       folder_ownerId = ''alice'', folder_createdAt = 1, folder_updatedAt = 1,
       folder_deletedAt = None \<rparr>"

definition bob_folder :: Folder where
  "bob_folder =
     \<lparr> folder_id = ''d2'', folder_name = ''inbox'', folder_parentId = None,
       folder_ownerId = ''bob'', folder_createdAt = 2, folder_updatedAt = 2,
       folder_deletedAt = None \<rparr>"

definition empty_db :: database where
  "empty_db = \<lparr> db_folders = [], db_files = [], db_shareLinks = [], db_auditLogs = [] \<rparr>"

definition example_db :: database where
  "example_db =
     \<lparr> db_folders = [alice_folder, bob_folder], db_files = [alice_file],
       db_shareLinks = [], db_auditLogs = [] \<rparr>"

definition trashed_db :: database where
  "trashed_db =
     \<lparr> db_folders = [alice_folder\<lparr> folder_deletedAt := Some 8 \<rparr>, bob_folder],
       db_files = [alice_file\<lparr> file_deletedAt := Some 9 \<rparr>],
       db_shareLinks = [], db_auditLogs = [] \<rparr>"

definition empty_world :: "unit world" where
  "empty_world = \<lparr> db = empty_db, store = \<lparr> disk = Map.empty, bucket = () \<rparr>, calls = [] \<rparr>"

definition example_world :: "unit world" where
  "example_world = \<lparr> db = example_db, store = \<lparr> disk = Map.empty, bucket = () \<rparr>, calls = [] \<rparr>"

definition stored_world :: "unit world" where
  "stored_world =
     \<lparr> db = example_db,
       store = \<lparr> disk = [''/data/storage/alice/2024/01/05/k1.pdf'' \<mapsto> ''abc''], bucket = () \<rparr>,
       calls = [] \<rparr>"


text \<open>
  A world where alice has a file and no folder, and one where she has a folder and
  no file.
\<close>

definition file_only_world :: "unit world" where
  "file_only_world =
     \<lparr> db = \<lparr> db_folders = [], db_files = [alice_file], db_shareLinks = [], db_auditLogs = [] \<rparr>,
       store = \<lparr> disk = [''/data/storage/alice/2024/01/05/k1.pdf'' \<mapsto> ''abc''], bucket = () \<rparr>,
       calls = [] \<rparr>"

definition folder_only_world :: "unit world" where
  "folder_only_world =
     \<lparr> db = \<lparr> db_folders = [alice_folder], db_files = [], db_shareLinks = [], db_auditLogs = [] \<rparr>,
       store = \<lparr> disk = Map.empty, bucket = () \<rparr>,
       calls = [] \<rparr>"

text \<open>
  A database for the listings. In alice's folder \<open>d1\<close>: her files \<open>zeta\<close> and
  \<open>alpha\<close>, her soft-deleted file \<open>beta\<close> and bob's file \<open>alpha\<close>; her folders
  \<open>work\<close> and \<open>archive\<close>, her soft-deleted folder \<open>old\<close> and bob's folder
  \<open>archive\<close>. At the root: her file \<open>report\<close> and the folders \<open>docs\<close> and
  \<open>inbox\<close>.
\<close>

definition listing_db :: database where
  "listing_db =
     \<lparr> db_folders =
         [alice_folder, bob_folder,
          alice_folder\<lparr> folder_id := ''d3'', folder_name := ''work'', folder_parentId := Some ''d1'' \<rparr>,
          alice_folder\<lparr> folder_id := ''d4'', folder_name := ''archive'',
                        folder_parentId := Some ''d1'' \<rparr>,
          bob_folder\<lparr> folder_id := ''d5'', folder_name := ''archive'', folder_parentId := Some ''d1'' \<rparr>,
          alice_folder\<lparr> folder_id := ''d6'', folder_name := ''old'', folder_parentId := Some ''d1'',
                        folder_deletedAt := Some 7 \<rparr>],
       db_files =
         [alice_file,
          alice_file\<lparr> file_id := ''f2'', file_name := ''zeta'', file_folderId := Some ''d1'' \<rparr>,
          alice_file\<lparr> file_id := ''f3'', file_name := ''alpha'', file_folderId := Some ''d1'' \<rparr>,
          alice_file\<lparr> file_id := ''f4'', file_name := ''beta'', file_folderId := Some ''d1'',
                      file_deletedAt := Some 7 \<rparr>,
          alice_file\<lparr> file_id := ''f5'', file_name := ''alpha'', file_ownerId := ''bob'',
                      file_folderId := Some ''d1'' \<rparr>],
       db_shareLinks = [], db_auditLogs = [] \<rparr>"

definition example_entropy :: entropy where
  "example_entropy =
     \<lparr> env_now = 20, env_fullYear = 2024, env_month = 0, env_date = 5,
       env_randomUUID = ''k2'', env_uploadUUID = ''u1'', env_rowId = ''r1'',
       env_auditId = ''a1'' \<rparr>"

definition later_entropy :: entropy where
  "later_entropy =
     \<lparr> env_now = 30, env_fullYear = 2024, env_month = 0, env_date = 5,
       env_randomUUID = ''k3'', env_uploadUUID = ''u2'', env_rowId = ''r2'',
       env_auditId = ''a2'' \<rparr>"

text \<open>
  A platform that answers as Node does on the inputs used below: the extension and
  base name of \<open>report.pdf\<close>, the SHA-256 digests of \<open>abc\<close> and \<open>secret\<close>, one
  ISO date, 40 milliseconds after the epoch, and header values, invalid when one of
  their characters is below U+0020 and not the tab, or is U+007F.
\<close>

definition example_platform :: platform where
  "example_platform =
     \<lparr> path_extname = (\<lambda>f. if f = ''report.pdf'' then ''.pdf'' else []),
       path_basename = (\<lambda>f ext. if f = ''report.pdf'' \<and> ext = ''.pdf'' then ''report'' else f),
       toLowerCase = (\<lambda>x. x),
       sha256_hex = (\<lambda>buf.
         if buf = ''abc''
         then ''ba7816bf8f01cfea414140de5dae2223b00361a396177a9cb410ff61f20015ad''
         else if buf = ''secret''
         then ''2bb80d537b1da3e38bd30361aa855686bde0eacd7162fef6a25fe97bf527a25b''
         else []),
       parse_datetime = (\<lambda>x. if x = ''1970-01-01T00:00:00.040Z'' then Some 40 else None),
       checkInvalidHeaderChar =
         (\<lambda>v. list_ex (\<lambda>c. (of_char c < (32 :: nat) \<and> c \<noteq> CHR 0x09) \<or> c = CHR 0x7F) v) \<rparr>"

definition local_config :: config where
  "local_config = \<lparr> STORAGE_DRIVER = None, LOCAL_STORAGE_PATH = None, SHARE_BASE_URL = None \<rparr>"

definition unreachable_client :: "unit S3Client" where
  "unreachable_client =
     \<lparr> send_PutObject = (\<lambda>key buf contentType b. (Inl StorageError, b)),
       send_GetObject = (\<lambda>key b. (Inl StorageError, b)),
       send_DeleteObject = (\<lambda>key b. (Inl StorageError, b)),
       send_CreateMultipartUpload = (\<lambda>key contentType b. (Inl StorageError, b)),
       send_CompleteMultipartUpload = (\<lambda>key uploadId parts b. (Inl StorageError, b)),
       getSignedUrl_GetObject = (\<lambda>key expiresIn. ''https://s3.invalid/'' @ key),
       getSignedUrl_UploadPart = (\<lambda>key partNumber uploadId expiresIn. ''https://s3.invalid/'' @ key) \<rparr>"

definition one_part :: "part list" where
  "one_part = [\<lparr> part_ETag = ''etag-1'', part_PartNumber = 1 \<rparr>]"

definition unordered_parts :: "part list" where
  "unordered_parts =
     [\<lparr> part_ETag = ''etag-b'', part_PartNumber = 2 \<rparr>,
      \<lparr> part_ETag = ''etag-a'', part_PartNumber = 1 \<rparr>]"

text \<open>
  The worlds after a direct upload of three bytes, after the initialisation of a
  multipart upload that declares 1000 bytes, and after its completion, all on the
  local backend and starting from the empty world.
\<close>

definition uploaded_world :: "unit world" where
  "uploaded_world =
     snd (uploadLocal example_platform (LocalStorageService ''/data/storage'') example_entropy
            ''report.pdf'' ''abc'' ''alice'' None empty_world)"

definition initiated_world :: "unit world" where
  "initiated_world =
     snd (initializeUpload example_platform (LocalStorageService ''/data/storage'') example_entropy
            ''report.pdf'' 1000 ''alice'' None empty_world)"

definition completed_world :: "unit world" where
  "completed_world =
     snd (completeUpload (LocalStorageService ''/data/storage'') later_entropy
            ''r1'' ''u1'' one_part initiated_world)"

section \<open>The property of claim C2\<close>

text \<open>
  The record of the file \<open>fileId\<close> exists, the storage service returns an object for
  its storage key, and the record's \<open>size\<close> is the number of bytes of that object.
\<close>

definition size_equals_stored_length :: "'b StorageService \<Rightarrow> string \<Rightarrow> 'b world \<Rightarrow> bool" where
  "size_equals_stored_length svc fileId w =
     (case getFileById fileId (db w) of
        None \<Rightarrow> False
      | Some f \<Rightarrow>
          (case fst (getFile svc (file_storageKey f) (store w)) of
             Inl _ \<Rightarrow> False
           | Inr buf \<Rightarrow> file_size f = int (length buf)))"

section \<open>Unfolding rules and lemmas about the tables\<close>

lemmas async_defs = resolve_def throw_def await_def try_catch_def run_select_def
  run_update_def run_insert_def object_store_def respond_def

lemmas example_defs = alice_file_def alice_folder_def bob_folder_def empty_db_def example_db_def
  trashed_db_def empty_world_def example_world_def stored_world_def example_entropy_def
  file_only_world_def folder_only_world_def listing_db_def
  later_entropy_def example_platform_def local_config_def unreachable_client_def

lemma decimal_values:
  "decimal 2024 = ''2024''" "decimal 5 = ''5''" "decimal (Suc 0) = ''1''"
  by (simp_all add: decimal.simps)


lemma find_file_update:
  assumes "\<And>r. file_id (g r) = file_id r"
  shows "find (\<lambda>r. file_id r = k) (map (\<lambda>r. if file_id r = i then g r else r) xs)
           = (if k = i then map_option g (find (\<lambda>r. file_id r = i) xs)
              else find (\<lambda>r. file_id r = k) xs)"
  using assms by (induction xs) auto

lemma find_folder_update:
  assumes "\<And>r. folder_id (g r) = folder_id r"
  shows "find (\<lambda>r. folder_id r = k) (map (\<lambda>r. if folder_id r = i then g r else r) xs)
           = (if k = i then map_option g (find (\<lambda>r. folder_id r = i) xs)
              else find (\<lambda>r. folder_id r = k) xs)"
  using assms by (induction xs) auto

lemma find_file_appended:
  "i \<notin> set (map file_id xs) \<Longrightarrow> file_id r = i \<Longrightarrow> find (\<lambda>x. file_id x = i) (xs @ [r]) = Some r"
  by (induction xs) auto

lemma find_folder_Some_id: "find (\<lambda>r. folder_id r = p) xs = Some g \<Longrightarrow> p \<in> folder_id ` set xs"
  by (induction xs) (auto split: if_splits)

lemma getFileById_deleteFile:
  "getFileById k (deleteFile i now d)
     = (if k = i then map_option (\<lambda>r. r\<lparr> file_deletedAt := Some now \<rparr>) (getFileById i d)
        else getFileById k d)"
  by (simp add: getFileById_def deleteFile_def find_file_update)

lemma getFolderById_deleteFolder:
  "getFolderById k (deleteFolder i now d)
     = (if k = i then map_option (\<lambda>r. r\<lparr> folder_deletedAt := Some now \<rparr>) (getFolderById i d)
        else getFolderById k d)"
  by (simp add: getFolderById_def deleteFolder_def find_folder_update)

lemma getFileById_restoreFromTrash:
  "getFileById k (restoreFromTrash i TFile now d)
     = (if k = i
        then map_option (\<lambda>r. r\<lparr> file_deletedAt := None, file_updatedAt := now \<rparr>) (getFileById i d)
        else getFileById k d)"
  by (simp add: getFileById_def restoreFromTrash_def find_file_update)


lemma createFile_Inr:
  assumes "createFile v newId now d = Inr (r, d')"
  shows "getFileById newId d' = Some r \<and> file_id r = newId \<and> file_size r = insI_size v
         \<and> file_storageKey r = insI_storageKey v
         \<and> db_files d' = db_files d @ [r] \<and> db_folders d' = db_folders d
         \<and> db_auditLogs d' = db_auditLogs d \<and> db_shareLinks d' = db_shareLinks d"
  using assms
  by (auto simp: createFile_def getFileById_def Let_def find_file_appended split: if_splits)

lemma createAuditLog_Inr:
  assumes "createAuditLog v newId now d = Inr (r, d')"
  shows "db_files d' = db_files d \<and> db_folders d' = db_folders d \<and> db_shareLinks d' = db_shareLinks d"
  using assms by (auto simp: createAuditLog_def Let_def split: if_splits)

section \<open>Purge\<close>



section \<open>Uploads\<close>

lemma uploadLocal_Inr:
  assumes "uploadLocal pf svc e filename buf ownerId folderId w = (Inr res, w')"
  shows "\<exists>f. getFileById (result_fileId res) (db w') = Some f
           \<and> file_size f = int (length buf)
           \<and> file_storageKey f = result_storageKey res
           \<and> result_storageKey res = generateStorageKey pf e ownerId filename
           \<and> (\<exists>s1. uploadFile svc (result_storageKey res) buf
                       (getMimeTypeFromExtension pf (path_extname pf filename)) (store w) = (Inr (), s1)
                    \<and> store w' = s1)"
proof -
  let ?key = "generateStorageKey pf e ownerId filename"
  let ?mime = "getMimeTypeFromExtension pf (path_extname pf filename)"
  from assms obtain s1 where up: "uploadFile svc ?key buf ?mime (store w) = (Inr (), s1)"
    unfolding uploadLocal_def
    by (auto simp: async_defs Let_def split: prod.splits sum.splits)
  from assms up obtain r d1 where
    cf: "createFile \<lparr> insI_name = path_basename pf filename (path_extname pf filename),
                      insI_ext = drop 1 (path_extname pf filename),
                      insI_mime = ?mime, insI_size = int (length buf),
                      insI_storageKey = ?key,
                      insI_checksum = Some (calculateChecksum pf buf),
                      insI_ownerId = ownerId, insI_folderId = or_null folderId \<rparr>
           (env_rowId e) (env_now e) (db w) = Inr (r, d1)"
    unfolding uploadLocal_def
    by (auto simp: async_defs Let_def split: prod.splits sum.splits)
  from assms up cf obtain a d2 where
    al: "createAuditLog \<lparr> insA_userId = ownerId, insA_action = ''file_uploaded'',
                      insA_targetType = ''file'', insA_targetId = file_id r,
                      insA_meta = JObject [(''filename'', JString filename),
                                           (''size'', JNumber (int (length buf))),
                                           (''storageKey'', JString ?key)] \<rparr>
           (env_auditId e) (env_now e) d1 = Inr (a, d2)"
      and res: "res = \<lparr> result_fileId = file_id r, result_storageKey = file_storageKey r \<rparr>"
      and w': "db w' = d2" "store w' = s1"
    unfolding uploadLocal_def
    by (auto simp: async_defs Let_def split: prod.splits sum.splits)
  from createFile_Inr [OF cf] createAuditLog_Inr [OF al] res w' up
  show ?thesis by (auto simp: getFileById_def)
qed

lemma initializeUpload_Inr:
  assumes "initializeUpload pf svc e filename sz ownerId folderId w = (Inr ini, w1)"
  shows "\<exists>f. getFileById (init_fileId ini) (db w1) = Some f \<and> file_size f = sz
           \<and> file_storageKey f = generateStorageKey pf e ownerId filename"
proof -
  let ?key = "generateStorageKey pf e ownerId filename"
  let ?mime = "getMimeTypeFromExtension pf (path_extname pf filename)"
  from assms obtain r d1 where
    cf: "createFile \<lparr> insI_name = path_basename pf filename (path_extname pf filename),
                      insI_ext = drop 1 (path_extname pf filename),
                      insI_mime = ?mime, insI_size = sz,
                      insI_storageKey = ?key, insI_checksum = None,
                      insI_ownerId = ownerId, insI_folderId = or_null folderId \<rparr>
           (env_rowId e) (env_now e) (db w) = Inr (r, d1)"
    unfolding initializeUpload_def
    by (auto simp: async_defs Let_def split: prod.splits sum.splits)
  from assms cf obtain a d2 where
    al: "createAuditLog \<lparr> insA_userId = ownerId, insA_action = ''file_upload_initiated'',
                      insA_targetType = ''file'', insA_targetId = file_id r,
                      insA_meta = JObject [(''filename'', JString filename),
                                           (''size'', JNumber sz),
                                           (''storageKey'', JString ?key)] \<rparr>
           (env_auditId e) (env_now e) d1 = Inr (a, d2)"
      and ini: "init_fileId ini = file_id r"
      and w1: "db w1 = d2"
    unfolding initializeUpload_def
    by (auto simp: async_defs Let_def split: prod.splits sum.splits)
  from createFile_Inr [OF cf] createAuditLog_Inr [OF al] ini w1
  show ?thesis by (auto simp: getFileById_def)
qed

lemma completeUpload_files:
  "db_files (db (snd (completeUpload svc e fileId uploadId parts w))) = db_files (db w)"
  unfolding completeUpload_def
  by (auto simp: async_defs createAuditLog_def Let_def split: prod.splits sum.splits option.splits)

lemma completeUpload_result:
  assumes "getFileById fileId (db w) = Some f"
  shows "fst (completeUpload svc e fileId uploadId parts w)
           = (case fst (completeMultipartUpload svc (file_storageKey f) uploadId parts (store w)) of
                Inl err \<Rightarrow> Inl err
              | Inr u \<Rightarrow>
                  if env_auditId e \<in> set (map audit_id (db_auditLogs (db w))) then Inl DbError
                  else Inr \<lparr> result_fileId = file_id f, result_storageKey = file_storageKey f \<rparr>)"
  using assms unfolding completeUpload_def
  by (auto simp: async_defs createAuditLog_def Let_def split: prod.splits sum.splits)

lemma initiated_world_eq:
  "map_sum id init_fileId (fst (initializeUpload example_platform (LocalStorageService ''/data/storage'') example_entropy
            ''report.pdf'' 1000 ''alice'' None empty_world)) = Inr ''r1''"
  "map_sum id init_uploadId (fst (initializeUpload example_platform (LocalStorageService ''/data/storage'') example_entropy
            ''report.pdf'' 1000 ''alice'' None empty_world)) = Inr ''u1''"
  "db_files (db initiated_world) = [\<lparr> file_id = ''r1'', file_name = ''report'', file_ext = ''pdf'',
       file_mime = ''application/pdf'', file_size = 1000,
       file_storageKey = ''alice/2024/01/05/k2.pdf'', file_checksum = None,
       file_ownerId = ''alice'', file_folderId = None,
       file_createdAt = 20, file_updatedAt = 20, file_deletedAt = None \<rparr>]"
  "store initiated_world = \<lparr> disk = Map.empty, bucket = () \<rparr>"
  "map audit_id (db_auditLogs (db initiated_world)) = [''a1'']"
  unfolding initiated_world_def initializeUpload_def
  by (simp_all add: async_defs example_defs createFile_def createAuditLog_def LocalStorageService_def
        generateStorageKey_def getMimeTypeFromExtension_def mimeTypes_def padStart2_def
        decimal_values or_null_def truthy_def Let_def)

text \<open>
  Claim C2, as amended. On the direct path the record's \<open>size\<close> is the length of the
  buffer that \<open>uploadLocal\<close> handed to the storage service under the record's
  storage key, and on the local backend that is the length of the object stored
  there. On the multipart path the record's \<open>size\<close> after \<open>completeUpload\<close> is
  the size the client declared to \<open>initializeUpload\<close>: no step compares it with the
  bytes transferred.
\<close>

theorem upload_size_direct_and_declared:
  "(uploadLocal pf svc e filename buf ownerId folderId w = (Inr res, w') \<longrightarrow>
      (\<exists>f. getFileById (result_fileId res) (db w') = Some f
          \<and> file_storageKey f = result_storageKey res
          \<and> file_size f = int (length buf)))
   \<and> (uploadLocal pf (LocalStorageService base) e filename buf ownerId folderId wl = (Inr resl, wl') \<longrightarrow>
        size_equals_stored_length (LocalStorageService base) (result_fileId resl) wl')
   \<and> (initializeUpload pf svc e1 filename sz ownerId folderId w0 = (Inr ini, w1)
        \<and> completeUpload svc e2 (init_fileId ini) uploadId parts w1 = (Inr res2, w2) \<longrightarrow>
        (\<exists>f. getFileById (init_fileId ini) (db w2) = Some f
            \<and> file_storageKey f = result_storageKey res2
            \<and> file_size f = sz))"
proof (intro conjI impI)
  assume "uploadLocal pf svc e filename buf ownerId folderId w = (Inr res, w')"
  from uploadLocal_Inr [OF this]
  show "\<exists>f. getFileById (result_fileId res) (db w') = Some f
          \<and> file_storageKey f = result_storageKey res
          \<and> file_size f = int (length buf)"
    by blast
next
  assume "uploadLocal pf (LocalStorageService base) e filename buf ownerId folderId wl = (Inr resl, wl')"
  from uploadLocal_Inr [OF this]
  show "size_equals_stored_length (LocalStorageService base) (result_fileId resl) wl'"
    by (auto simp: size_equals_stored_length_def LocalStorageService_def)
next
  assume a: "initializeUpload pf svc e1 filename sz ownerId folderId w0 = (Inr ini, w1)
        \<and> completeUpload svc e2 (init_fileId ini) uploadId parts w1 = (Inr res2, w2)"
  from a initializeUpload_Inr obtain f where
    f: "getFileById (init_fileId ini) (db w1) = Some f" "file_size f = sz"
    by blast
  from a have c: "completeUpload svc e2 (init_fileId ini) uploadId parts w1 = (Inr res2, w2)"
    by simp
  from completeUpload_files [of svc e2 "init_fileId ini" uploadId parts w1] c
  have "db_files (db w2) = db_files (db w1)" by simp
  with f have f2: "getFileById (init_fileId ini) (db w2) = Some f"
    by (simp add: getFileById_def)
  from completeUpload_result [OF f(1), of svc e2 uploadId parts] c
  have "result_storageKey res2 = file_storageKey f"
    by (auto split: sum.splits if_splits)
  with f2 f(2) show "\<exists>f. getFileById (init_fileId ini) (db w2) = Some f
            \<and> file_storageKey f = result_storageKey res2
            \<and> file_size f = sz"
    by simp
qed

text \<open>
  At concrete inputs: a direct upload of the three bytes \<open>abc\<close>, and a multipart
  upload that declares 1000 bytes and completes with one part.
\<close>

theorem upload_size_direct_and_declared_witness:
  "uploadLocal example_platform (LocalStorageService ''/data/storage'') example_entropy
     ''report.pdf'' ''abc'' ''alice'' None empty_world
     = (Inr \<lparr> result_fileId = ''r1'', result_storageKey = ''alice/2024/01/05/k2.pdf'' \<rparr>,
        uploaded_world)
   \<and> (\<exists>f. getFileById ''r1'' (db uploaded_world) = Some f
          \<and> file_storageKey f = ''alice/2024/01/05/k2.pdf'' \<and> file_size f = 3)
   \<and> size_equals_stored_length (LocalStorageService ''/data/storage'') ''r1'' uploaded_world
   \<and> fst (initializeUpload example_platform (LocalStorageService ''/data/storage'')
            example_entropy ''report.pdf'' 1000 ''alice'' None empty_world)
       = Inr \<lparr> init_uploadId = ''u1'',
               init_presignedUrls =
                 snd (projr (fst (createMultipartUpload (LocalStorageService ''/data/storage'')
                        ''alice/2024/01/05/k2.pdf'' ''application/pdf'' ''u1''
                        \<lparr> disk = Map.empty, bucket = () \<rparr>))),
               init_fileId = ''r1'' \<rparr>
   \<and> completeUpload (LocalStorageService ''/data/storage'') later_entropy ''r1'' ''u1'' one_part
       initiated_world
       = (Inr \<lparr> result_fileId = ''r1'', result_storageKey = ''alice/2024/01/05/k2.pdf'' \<rparr>,
          completed_world)
   \<and> (\<exists>f. getFileById ''r1'' (db completed_world) = Some f
          \<and> file_storageKey f = ''alice/2024/01/05/k2.pdf'' \<and> file_size f = 1000)"
proof -
  let ?svc = "LocalStorageService ''/data/storage'' :: unit StorageService"
  let ?res = "\<lparr> result_fileId = ''r1'', result_storageKey = ''alice/2024/01/05/k2.pdf'' \<rparr>"
  let ?ini = "\<lparr> init_uploadId = ''u1'',
               init_presignedUrls =
                 snd (projr (fst (createMultipartUpload ?svc
                        ''alice/2024/01/05/k2.pdf'' ''application/pdf'' ''u1''
                        \<lparr> disk = Map.empty, bucket = () \<rparr>))),
               init_fileId = ''r1'' \<rparr>"
  have u: "fst (uploadLocal example_platform ?svc example_entropy
                 ''report.pdf'' ''abc'' ''alice'' None empty_world) = Inr ?res"
    unfolding uploadLocal_def
    by (simp add: async_defs example_defs createFile_def createAuditLog_def LocalStorageService_def
          generateStorageKey_def getMimeTypeFromExtension_def mimeTypes_def padStart2_def
          decimal_values or_null_def truthy_def Let_def)
  have u': "uploadLocal example_platform ?svc example_entropy
              ''report.pdf'' ''abc'' ''alice'' None empty_world = (Inr ?res, uploaded_world)"
    using u unfolding uploaded_world_def by (simp add: prod_eq_iff)
  have i: "fst (initializeUpload example_platform ?svc example_entropy
                 ''report.pdf'' 1000 ''alice'' None empty_world) = Inr ?ini"
    unfolding initializeUpload_def
    by (simp add: async_defs example_defs createFile_def createAuditLog_def LocalStorageService_def
          generateStorageKey_def getMimeTypeFromExtension_def mimeTypes_def padStart2_def
          decimal_values or_null_def truthy_def Let_def)
  have i': "initializeUpload example_platform ?svc example_entropy
              ''report.pdf'' 1000 ''alice'' None empty_world = (Inr ?ini, initiated_world)"
    using i unfolding initiated_world_def by (simp add: prod_eq_iff)
  have f: "getFileById ''r1'' (db initiated_world) = Some \<lparr> file_id = ''r1'', file_name = ''report'', file_ext = ''pdf'',
       file_mime = ''application/pdf'', file_size = 1000,
       file_storageKey = ''alice/2024/01/05/k2.pdf'', file_checksum = None,
       file_ownerId = ''alice'', file_folderId = None,
       file_createdAt = 20, file_updatedAt = 20, file_deletedAt = None \<rparr>"
    by (simp add: getFileById_def initiated_world_eq)
  have c: "fst (completeUpload ?svc later_entropy ''r1'' ''u1'' one_part initiated_world) = Inr ?res"
    by (simp add: completeUpload_result [OF f] LocalStorageService_def initiated_world_eq
          later_entropy_def)
  have c': "completeUpload ?svc later_entropy ''r1'' ''u1'' one_part initiated_world
              = (Inr ?res, completed_world)"
    using c unfolding completed_world_def by (simp add: prod_eq_iff)
  have c'': "completeUpload ?svc later_entropy (init_fileId ?ini) ''u1'' one_part initiated_world
              = (Inr ?res, completed_world)"
    using c' by simp
  note t = upload_size_direct_and_declared [where pf = example_platform and svc = ?svc and e = example_entropy
      and filename = "''report.pdf''" and buf = "''abc''" and ownerId = "''alice''"
      and folderId = None and w = empty_world and res = ?res and w' = uploaded_world
      and base = "''/data/storage''" and wl = empty_world and resl = ?res and wl' = uploaded_world
      and ?e1.0 = example_entropy and sz = 1000 and ?w0.0 = empty_world and ini = ?ini
      and ?w1.0 = initiated_world and ?e2.0 = later_entropy and uploadId = "''u1''"
      and parts = one_part and ?res2.0 = ?res and ?w2.0 = completed_world]
  from t u' i' c'' have
    "(\<exists>f. getFileById ''r1'' (db uploaded_world) = Some f
          \<and> file_storageKey f = ''alice/2024/01/05/k2.pdf'' \<and> file_size f = 3)"
    "size_equals_stored_length ?svc ''r1'' uploaded_world"
    "(\<exists>f. getFileById ''r1'' (db completed_world) = Some f
          \<and> file_storageKey f = ''alice/2024/01/05/k2.pdf'' \<and> file_size f = 1000)"
    by simp_all
  with u' i c' show ?thesis by simp
qed

text \<open>
  Claim C2 as stated fails on the multipart path. On the local backend a client
  declares 1000 bytes, transfers nothing and completes the upload: \<open>completeUpload\<close>
  succeeds, the record says 1000, and no object is stored under the key.
\<close>

theorem multipart_size_is_not_stored_length:
  "map_sum id init_fileId
     (fst (initializeUpload example_platform (LocalStorageService ''/data/storage'') example_entropy
             ''report.pdf'' 1000 ''alice'' None empty_world)) = Inr ''r1''
   \<and> fst (completeUpload (LocalStorageService ''/data/storage'') later_entropy
            ''r1'' ''u1'' one_part initiated_world)
       = Inr \<lparr> result_fileId = ''r1'', result_storageKey = ''alice/2024/01/05/k2.pdf'' \<rparr>
   \<and> map_option file_size (getFileById ''r1'' (db completed_world)) = Some 1000
   \<and> fst (getFile (LocalStorageService ''/data/storage'') ''alice/2024/01/05/k2.pdf''
            (store completed_world)) = Inl StorageError
   \<and> \<not> size_equals_stored_length (LocalStorageService ''/data/storage'') ''r1'' completed_world"
proof -
  have f: "getFileById ''r1'' (db initiated_world) = Some \<lparr> file_id = ''r1'', file_name = ''report'', file_ext = ''pdf'',
       file_mime = ''application/pdf'', file_size = 1000,
       file_storageKey = ''alice/2024/01/05/k2.pdf'', file_checksum = None,
       file_ownerId = ''alice'', file_folderId = None,
       file_createdAt = 20, file_updatedAt = 20, file_deletedAt = None \<rparr>"
    by (simp add: getFileById_def initiated_world_eq)
  have r: "fst (completeUpload (LocalStorageService ''/data/storage'') later_entropy
            ''r1'' ''u1'' one_part initiated_world)
       = Inr \<lparr> result_fileId = ''r1'', result_storageKey = ''alice/2024/01/05/k2.pdf'' \<rparr>"
    by (simp add: completeUpload_result [OF f] LocalStorageService_def initiated_world_eq
          later_entropy_def)
  have fs: "db_files (db completed_world) = db_files (db initiated_world)"
    unfolding completed_world_def by (rule completeUpload_files)
  have st: "store completed_world = \<lparr> disk = Map.empty, bucket = () \<rparr>"
    unfolding completed_world_def completeUpload_def
    by (simp add: async_defs f LocalStorageService_def createAuditLog_def initiated_world_eq
          later_entropy_def Let_def)
  have g: "getFileById ''r1'' (db completed_world) = getFileById ''r1'' (db initiated_world)"
    using fs by (simp add: getFileById_def)
  have gf: "fst (getFile (LocalStorageService ''/data/storage'') ''alice/2024/01/05/k2.pdf''
            (store completed_world)) = Inl StorageError"
    by (simp add: st LocalStorageService_def)
  have ns: "\<not> size_equals_stored_length (LocalStorageService ''/data/storage'') ''r1'' completed_world"
    by (simp add: size_equals_stored_length_def g f gf)
  from initiated_world_eq(1) r g f gf ns show ?thesis
    by simp
qed

text \<open>
  The same on every backend: \<open>initializeUpload\<close> gives the storage service the key
  and the MIME type only, so two uploads that differ in nothing but the declared size
  leave the same store, after the initialisation and after the completion, while
  their records carry the two sizes.
\<close>

lemma initializeUpload_store:
  assumes "initializeUpload pf svc e filename sz ownerId folderId w = (Inr ini, w1)"
  shows "store w1 = snd (createMultipartUpload svc (generateStorageKey pf e ownerId filename)
                           (getMimeTypeFromExtension pf (path_extname pf filename))
                           (env_uploadUUID e) (store w))
       \<and> init_fileId ini = env_rowId e"
  using assms unfolding initializeUpload_def
  by (auto simp: async_defs createFile_def createAuditLog_def Let_def
        split: prod.splits sum.splits if_splits)

lemma completeUpload_store:
  assumes "getFileById fileId (db w) = Some f"
  shows "store (snd (completeUpload svc e fileId uploadId parts w))
           = snd (completeMultipartUpload svc (file_storageKey f) uploadId parts (store w))"
  using assms unfolding completeUpload_def
  by (auto simp: async_defs createAuditLog_def Let_def split: prod.splits sum.splits)

lemma declared_size_never_reaches_store:
  assumes "initializeUpload pf svc e filename sz ownerId folderId w = (Inr ini, w1)"
      and "initializeUpload pf svc e filename sz' ownerId folderId w = (Inr ini', w1')"
  shows "store w1' = store w1
       \<and> store (snd (completeUpload svc e2 (init_fileId ini') uploadId parts w1'))
           = store (snd (completeUpload svc e2 (init_fileId ini) uploadId parts w1))"
proof -
  from initializeUpload_Inr [OF assms(1)] obtain f where
    f: "getFileById (init_fileId ini) (db w1) = Some f"
       "file_storageKey f = generateStorageKey pf e ownerId filename"
    by blast
  from initializeUpload_Inr [OF assms(2)] obtain f' where
    f': "getFileById (init_fileId ini') (db w1') = Some f'"
        "file_storageKey f' = generateStorageKey pf e ownerId filename"
    by blast
  from initializeUpload_store [OF assms(1)] initializeUpload_store [OF assms(2)]
  have s: "store w1' = store w1" by simp
  with completeUpload_store [OF f(1)] completeUpload_store [OF f'(1)] f(2) f'(2)
  show ?thesis by simp
qed

text \<open>
  Claim C8, as amended. For a known file, \<open>completeUpload\<close> fails exactly when the
  storage service's \<open>completeMultipartUpload\<close> fails, with that error, or when the
  audit-log insert after it fails. The local service's completion ignores its
  arguments and never fails, so on the local backend every list of parts is
  accepted. The S3 service hands the list, as given, to the S3 client, and answers
  what the client answers: the order of the parts and their tags are checked by
  S3 or not at all.
\<close>

theorem complete_upload_fails_only_with_backend:
  assumes "getFileById fileId (db w) = Some f"
  shows "fst (completeUpload svc e fileId uploadId parts w)
           = (case fst (completeMultipartUpload svc (file_storageKey f) uploadId parts (store w)) of
                Inl err \<Rightarrow> Inl err
              | Inr u \<Rightarrow>
                  if env_auditId e \<in> set (map audit_id (db_auditLogs (db w))) then Inl DbError
                  else Inr \<lparr> result_fileId = file_id f, result_storageKey = file_storageKey f \<rparr>)
       \<and> completeMultipartUpload (LocalStorageService base) key uploadId parts s = (Inr (), s)
       \<and> fst (completeMultipartUpload (S3StorageService client) key uploadId parts s)
           = fst (send_CompleteMultipartUpload client key uploadId parts (bucket s))
       \<and> fst (completeUpload (LocalStorageService base) e fileId uploadId parts w)
           = (if env_auditId e \<in> set (map audit_id (db_auditLogs (db w))) then Inl DbError
              else Inr \<lparr> result_fileId = file_id f, result_storageKey = file_storageKey f \<rparr>)"
  by (simp add: completeUpload_result [OF assms] LocalStorageService_def S3StorageService_def
        on_bucket_def split: prod.splits)

text \<open>
  At concrete inputs: the S3 client rejects the completion and \<open>completeUpload\<close>
  fails with its error; the local backend accepts the same call.
\<close>

theorem complete_upload_fails_only_with_backend_witness:
  "getFileById ''f1'' (db example_world) = Some alice_file
   \<and> fst (completeMultipartUpload (S3StorageService unreachable_client)
            (file_storageKey alice_file) ''u1'' one_part (store example_world)) = Inl StorageError
   \<and> fst (completeUpload (S3StorageService unreachable_client) example_entropy
            ''f1'' ''u1'' one_part example_world) = Inl StorageError
   \<and> fst (completeUpload (LocalStorageService ''/data/storage'') example_entropy
            ''f1'' ''u1'' one_part example_world)
       = Inr \<lparr> result_fileId = ''f1'', result_storageKey = ''alice/2024/01/05/k1.pdf'' \<rparr>"
proof -
  have f: "getFileById ''f1'' (db example_world) = Some alice_file"
    by (simp add: getFileById_def example_defs)
  have s: "fst (send_CompleteMultipartUpload unreachable_client (file_storageKey alice_file)
                  ''u1'' one_part (bucket (store example_world))) = Inl StorageError"
    by (simp add: unreachable_client_def)
  have a: "env_auditId example_entropy \<notin> set (map audit_id (db_auditLogs (db example_world)))"
    by (simp add: example_defs)
  have k: "file_id alice_file = ''f1''" "file_storageKey alice_file = ''alice/2024/01/05/k1.pdf''"
    by (simp_all add: alice_file_def)
  from complete_upload_fails_only_with_backend [OF f, of "S3StorageService unreachable_client" example_entropy "''u1''" one_part
             "''/data/storage''" "file_storageKey alice_file" "store example_world"
             unreachable_client] f s a k
  show ?thesis by simp
qed

text \<open>
  Claim C8 as stated fails on the local backend: parts numbered 2, 1, with tags of
  parts that were never transferred, under an upload id that was never issued,
  complete successfully.
\<close>

theorem local_completion_accepts_unordered_parts:
  "map part_PartNumber unordered_parts = [2, 1]
   \<and> fst (completeUpload (LocalStorageService ''/data/storage'') example_entropy
            ''f1'' ''no-such-upload'' unordered_parts example_world)
       = Inr \<lparr> result_fileId = ''f1'', result_storageKey = ''alice/2024/01/05/k1.pdf'' \<rparr>"
proof -
  have f: "getFileById ''f1'' (db example_world) = Some alice_file"
    by (simp add: getFileById_def example_defs)
  from completeUpload_result
         [OF f, of "LocalStorageService ''/data/storage''" example_entropy "''no-such-upload''"
            unordered_parts]
  show ?thesis
    by (simp add: unordered_parts_def LocalStorageService_def example_defs)
qed

section \<open>Soft delete, restore and the trash\<close>

lemma DELETE_file_effect:
  assumes "getFileById i (db w) = Some f" and "file_ownerId f = user"
  shows "store (snd (DELETE_api_files_id e user i w)) = store w
       \<and> calls (snd (DELETE_api_files_id e user i w))
           = calls w @ [DatabaseCall ''getFileById'' i, DatabaseCall ''deleteFile'' i,
                        DatabaseCall ''createAuditLog'' ''file_deleted'']
       \<and> db_files (db (snd (DELETE_api_files_id e user i w)))
           = db_files (deleteFile i (env_now e) (db w))
       \<and> db_folders (db (snd (DELETE_api_files_id e user i w))) = db_folders (db w)"
  using assms
  unfolding DELETE_api_files_id_def FileService_deleteFile_def
  by (auto simp: async_defs createAuditLog_def deleteFile_def Let_def
        split: prod.splits sum.splits)

lemma DELETE_folder_effect:
  assumes "getFolderById j (db w) = Some g" and "folder_ownerId g = user"
  shows "store (snd (DELETE_api_folders_id e user j w)) = store w
       \<and> calls (snd (DELETE_api_folders_id e user j w))
           = calls w @ [DatabaseCall ''getFolderById'' j, DatabaseCall ''deleteFolder'' j,
                        DatabaseCall ''createAuditLog'' ''folder_deleted'']
       \<and> db_folders (db (snd (DELETE_api_folders_id e user j w)))
           = db_folders (deleteFolder j (env_now e) (db w))
       \<and> db_files (db (snd (DELETE_api_folders_id e user j w))) = db_files (db w)"
  using assms
  unfolding DELETE_api_folders_id_def
  by (auto simp: async_defs createAuditLog_def deleteFolder_def Let_def
        split: prod.splits sum.splits)

text \<open>
  Claim C9. Soft-deleting a file (\<open>deleteFile\<close>) replaces its row by the same row
  with \<open>deletedAt\<close> set: every other field, \<open>updatedAt\<close> included, keeps its
  value, and the rows with other ids and the table of folders are as before. The
  route \<open>DELETE /api/files/:id\<close>, called by the owner, changes the row in that way,
  leaves the object store as it was and calls the database only. The same holds for
  a folder, with \<open>deleteFolder\<close> and \<open>DELETE /api/folders/:id\<close>. The two halves
  stand each for itself: the file's owner need not have a folder, nor the folder's
  owner a file.
\<close>

theorem soft_delete_sets_only_deletedAt:
  "(getFileById i (db w) = Some f \<and> file_ownerId f = user \<longrightarrow>
      getFileById i (deleteFile i now (db w)) = Some (f\<lparr> file_deletedAt := Some now \<rparr>)
    \<and> (\<forall>k. k \<noteq> i \<longrightarrow> getFileById k (deleteFile i now (db w)) = getFileById k (db w))
    \<and> db_folders (deleteFile i now (db w)) = db_folders (db w)
    \<and> getFileById i (db (snd (DELETE_api_files_id e user i w)))
        = Some (f\<lparr> file_deletedAt := Some (env_now e) \<rparr>)
    \<and> db_files (db (snd (DELETE_api_files_id e user i w)))
        = db_files (deleteFile i (env_now e) (db w))
    \<and> db_folders (db (snd (DELETE_api_files_id e user i w))) = db_folders (db w)
    \<and> store (snd (DELETE_api_files_id e user i w)) = store w
    \<and> calls (snd (DELETE_api_files_id e user i w))
        = calls w @ [DatabaseCall ''getFileById'' i, DatabaseCall ''deleteFile'' i,
                     DatabaseCall ''createAuditLog'' ''file_deleted''])
   \<and> (getFolderById j (db v) = Some g \<and> folder_ownerId g = owner \<longrightarrow>
      getFolderById j (deleteFolder j now (db v)) = Some (g\<lparr> folder_deletedAt := Some now \<rparr>)
    \<and> (\<forall>k. k \<noteq> j \<longrightarrow> getFolderById k (deleteFolder j now (db v)) = getFolderById k (db v))
    \<and> db_files (deleteFolder j now (db v)) = db_files (db v)
    \<and> getFolderById j (db (snd (DELETE_api_folders_id e owner j v)))
        = Some (g\<lparr> folder_deletedAt := Some (env_now e) \<rparr>)
    \<and> db_folders (db (snd (DELETE_api_folders_id e owner j v)))
        = db_folders (deleteFolder j (env_now e) (db v))
    \<and> db_files (db (snd (DELETE_api_folders_id e owner j v))) = db_files (db v)
    \<and> store (snd (DELETE_api_folders_id e owner j v)) = store v
    \<and> calls (snd (DELETE_api_folders_id e owner j v))
        = calls v @ [DatabaseCall ''getFolderById'' j, DatabaseCall ''deleteFolder'' j,
                     DatabaseCall ''createAuditLog'' ''folder_deleted''])"
proof (intro conjI impI)
  assume a: "getFileById i (db w) = Some f \<and> file_ownerId f = user"
  then have a1: "getFileById i (db w) = Some f" and a2: "file_ownerId f = user"
    by simp_all
  note d = DELETE_file_effect [OF a1 a2, of e]
  from d have fs: "db_files (db (snd (DELETE_api_files_id e user i w)))
                     = db_files (deleteFile i (env_now e) (db w))"
    by simp
  show "getFileById i (deleteFile i now (db w)) = Some (f\<lparr> file_deletedAt := Some now \<rparr>)"
    using a1 by (simp add: getFileById_deleteFile)
  show "\<forall>k. k \<noteq> i \<longrightarrow> getFileById k (deleteFile i now (db w)) = getFileById k (db w)"
    by (simp add: getFileById_deleteFile)
  show "db_folders (deleteFile i now (db w)) = db_folders (db w)"
    by (simp add: deleteFile_def)
  have "getFileById i (db (snd (DELETE_api_files_id e user i w)))
          = getFileById i (deleteFile i (env_now e) (db w))"
    using fs by (simp add: getFileById_def)
  then show "getFileById i (db (snd (DELETE_api_files_id e user i w)))
               = Some (f\<lparr> file_deletedAt := Some (env_now e) \<rparr>)"
    using a1 by (simp add: getFileById_deleteFile)
  show "db_files (db (snd (DELETE_api_files_id e user i w)))
          = db_files (deleteFile i (env_now e) (db w))"
    by (fact fs)
  show "db_folders (db (snd (DELETE_api_files_id e user i w))) = db_folders (db w)"
    using d by simp
  show "store (snd (DELETE_api_files_id e user i w)) = store w"
    using d by simp
  show "calls (snd (DELETE_api_files_id e user i w))
          = calls w @ [DatabaseCall ''getFileById'' i, DatabaseCall ''deleteFile'' i,
                       DatabaseCall ''createAuditLog'' ''file_deleted'']"
    using d by simp
next
  assume a: "getFolderById j (db v) = Some g \<and> folder_ownerId g = owner"
  then have a1: "getFolderById j (db v) = Some g" and a2: "folder_ownerId g = owner"
    by simp_all
  note d = DELETE_folder_effect [OF a1 a2, of e]
  from d have fs: "db_folders (db (snd (DELETE_api_folders_id e owner j v)))
                     = db_folders (deleteFolder j (env_now e) (db v))"
    by simp
  show "getFolderById j (deleteFolder j now (db v)) = Some (g\<lparr> folder_deletedAt := Some now \<rparr>)"
    using a1 by (simp add: getFolderById_deleteFolder)
  show "\<forall>k. k \<noteq> j \<longrightarrow> getFolderById k (deleteFolder j now (db v)) = getFolderById k (db v)"
    by (simp add: getFolderById_deleteFolder)
  show "db_files (deleteFolder j now (db v)) = db_files (db v)"
    by (simp add: deleteFolder_def)
  have "getFolderById j (db (snd (DELETE_api_folders_id e owner j v)))
          = getFolderById j (deleteFolder j (env_now e) (db v))"
    using fs by (simp add: getFolderById_def)
  then show "getFolderById j (db (snd (DELETE_api_folders_id e owner j v)))
               = Some (g\<lparr> folder_deletedAt := Some (env_now e) \<rparr>)"
    using a1 by (simp add: getFolderById_deleteFolder)
  show "db_folders (db (snd (DELETE_api_folders_id e owner j v)))
          = db_folders (deleteFolder j (env_now e) (db v))"
    by (fact fs)
  show "db_files (db (snd (DELETE_api_folders_id e owner j v))) = db_files (db v)"
    using d by simp
  show "store (snd (DELETE_api_folders_id e owner j v)) = store v"
    using d by simp
  show "calls (snd (DELETE_api_folders_id e owner j v))
          = calls v @ [DatabaseCall ''getFolderById'' j, DatabaseCall ''deleteFolder'' j,
                       DatabaseCall ''createAuditLog'' ''folder_deleted'']"
    using d by simp
qed

text \<open>
  At concrete inputs: alice soft-deletes her file in a world where she has no
  folder, and her folder in a world where she has no file.
\<close>

theorem soft_delete_sets_only_deletedAt_witness:
  "getFileById ''f1'' (db file_only_world) = Some alice_file
   \<and> file_ownerId alice_file = ''alice''
   \<and> db_folders (db file_only_world) = []
   \<and> fst (DELETE_api_files_id example_entropy ''alice'' ''f1'' file_only_world) = Status 204 NoBody
   \<and> getFileById ''f1'' (db (snd (DELETE_api_files_id example_entropy ''alice'' ''f1'' file_only_world)))
       = Some (alice_file\<lparr> file_deletedAt := Some 20 \<rparr>)
   \<and> file_updatedAt (alice_file\<lparr> file_deletedAt := Some 20 \<rparr>) = file_updatedAt alice_file
   \<and> store (snd (DELETE_api_files_id example_entropy ''alice'' ''f1'' file_only_world))
       = store file_only_world
   \<and> calls (snd (DELETE_api_files_id example_entropy ''alice'' ''f1'' file_only_world))
       = [DatabaseCall ''getFileById'' ''f1'', DatabaseCall ''deleteFile'' ''f1'',
          DatabaseCall ''createAuditLog'' ''file_deleted'']
   \<and> fst (getFile (LocalStorageService ''/data/storage'') (file_storageKey alice_file)
            (store (snd (DELETE_api_files_id example_entropy ''alice'' ''f1'' file_only_world))))
       = Inr ''abc''
   \<and> getFolderById ''d1'' (db folder_only_world) = Some alice_folder
   \<and> folder_ownerId alice_folder = ''alice''
   \<and> db_files (db folder_only_world) = []
   \<and> fst (DELETE_api_folders_id example_entropy ''alice'' ''d1'' folder_only_world)
       = Status 204 NoBody
   \<and> getFolderById ''d1''
        (db (snd (DELETE_api_folders_id example_entropy ''alice'' ''d1'' folder_only_world)))
       = Some (alice_folder\<lparr> folder_deletedAt := Some 20 \<rparr>)
   \<and> store (snd (DELETE_api_folders_id example_entropy ''alice'' ''d1'' folder_only_world))
       = store folder_only_world
   \<and> calls (snd (DELETE_api_folders_id example_entropy ''alice'' ''d1'' folder_only_world))
       = [DatabaseCall ''getFolderById'' ''d1'', DatabaseCall ''deleteFolder'' ''d1'',
          DatabaseCall ''createAuditLog'' ''folder_deleted'']"
proof -
  have h1: "getFileById ''f1'' (db file_only_world) = Some alice_file"
    by (simp add: getFileById_def example_defs)
  have h2: "file_ownerId alice_file = ''alice''"
    by (simp add: example_defs)
  have h3: "getFolderById ''d1'' (db folder_only_world) = Some alice_folder"
    by (simp add: getFolderById_def example_defs)
  have h4: "folder_ownerId alice_folder = ''alice''"
    by (simp add: example_defs)
  have n: "db_folders (db file_only_world) = []" "db_files (db folder_only_world) = []"
    by (simp_all add: example_defs)
  have r1: "fst (DELETE_api_files_id example_entropy ''alice'' ''f1'' file_only_world)
              = Status 204 NoBody"
    unfolding DELETE_api_files_id_def FileService_deleteFile_def
    by (simp add: async_defs getFileById_def deleteFile_def createAuditLog_def Let_def
          example_defs)
  have r2: "fst (DELETE_api_folders_id example_entropy ''alice'' ''d1'' folder_only_world)
              = Status 204 NoBody"
    unfolding DELETE_api_folders_id_def
    by (simp add: async_defs getFolderById_def deleteFolder_def createAuditLog_def Let_def
          example_defs)
  have c: "calls file_only_world = []" "calls folder_only_world = []"
    by (simp_all add: example_defs)
  have e: "env_now example_entropy = 20"
    by (simp add: example_entropy_def)
  have g: "fst (getFile (LocalStorageService ''/data/storage'') (file_storageKey alice_file)
                 (store file_only_world)) = Inr ''abc''"
    by (simp add: LocalStorageService_def getFilePath_def example_defs)
  note t = soft_delete_sets_only_deletedAt
             [where i = "''f1''" and w = file_only_world and f = alice_file and user = "''alice''"
                and j = "''d1''" and v = folder_only_world and g = alice_folder
                and owner = "''alice''" and e = example_entropy and now = 20]
  from t h1 h2 h3 h4 have
    "getFileById ''f1'' (db (snd (DELETE_api_files_id example_entropy ''alice'' ''f1'' file_only_world)))
       = Some (alice_file\<lparr> file_deletedAt := Some 20 \<rparr>)"
    "store (snd (DELETE_api_files_id example_entropy ''alice'' ''f1'' file_only_world))
       = store file_only_world"
    "calls (snd (DELETE_api_files_id example_entropy ''alice'' ''f1'' file_only_world))
       = [DatabaseCall ''getFileById'' ''f1'', DatabaseCall ''deleteFile'' ''f1'',
          DatabaseCall ''createAuditLog'' ''file_deleted'']"
    "getFolderById ''d1''
        (db (snd (DELETE_api_folders_id example_entropy ''alice'' ''d1'' folder_only_world)))
       = Some (alice_folder\<lparr> folder_deletedAt := Some 20 \<rparr>)"
    "store (snd (DELETE_api_folders_id example_entropy ''alice'' ''d1'' folder_only_world))
       = store folder_only_world"
    "calls (snd (DELETE_api_folders_id example_entropy ''alice'' ''d1'' folder_only_world))
       = [DatabaseCall ''getFolderById'' ''d1'', DatabaseCall ''deleteFolder'' ''d1'',
          DatabaseCall ''createAuditLog'' ''folder_deleted'']"
    by (simp_all add: e c)
  with h1 h2 h3 h4 n r1 r2 g show ?thesis by simp
qed

text \<open>
  Claim C5, as amended. Soft-deleting an active file and restoring it gives back the
  original record except for \<open>updatedAt\<close>, which \<open>restoreFromTrash\<close> sets to the
  time of the restore; \<open>deletedAt\<close> is cleared.
\<close>

theorem soft_delete_then_restore:
  assumes "getFileById i d = Some f" and "file_deletedAt f = None"
  shows "getFileById i (restoreFromTrash i TFile t2 (deleteFile i t1 d))
           = Some (f\<lparr> file_updatedAt := t2 \<rparr>)"
  using assms by (simp add: getFileById_restoreFromTrash getFileById_deleteFile)

text \<open>At a concrete input: alice's file, deleted at time 8 and restored at time 12.\<close>

theorem soft_delete_then_restore_witness:
  "getFileById ''f1'' example_db = Some alice_file
   \<and> file_deletedAt alice_file = None
   \<and> getFileById ''f1'' (restoreFromTrash ''f1'' TFile 12 (deleteFile ''f1'' 8 example_db))
       = Some (alice_file\<lparr> file_updatedAt := 12 \<rparr>)"
proof -
  have h1: "getFileById ''f1'' example_db = Some alice_file"
    by (simp add: getFileById_def example_defs)
  have h2: "file_deletedAt alice_file = None"
    by (simp add: example_defs)
  from soft_delete_then_restore [OF h1 h2, of 12 8] h1 h2
  show ?thesis by simp
qed

text \<open>
  Claim C5 as stated fails: the record of alice's file, last updated at time 5,
  comes back from a soft delete at 20 and a restore at 30 with \<open>updatedAt = 30\<close>.
\<close>

theorem soft_delete_then_restore_changes_updatedAt:
  "getFileById ''f1'' example_db = Some alice_file
   \<and> file_deletedAt alice_file = None
   \<and> getFileById ''f1'' (restoreFromTrash ''f1'' TFile 30 (deleteFile ''f1'' 20 example_db))
       = Some (alice_file\<lparr> file_updatedAt := 30 \<rparr>)
   \<and> getFileById ''f1'' (restoreFromTrash ''f1'' TFile 30 (deleteFile ''f1'' 20 example_db))
       \<noteq> Some alice_file"
  by (simp add: getFileById_def restoreFromTrash_def deleteFile_def example_defs)

text \<open>
  Claim C6 is right and \<open>getTrashItems\<close> is wrong. Its condition
  \<open>isNull(files.deletedAt) === false\<close> compares an SQL expression with a boolean and
  is the constant \<open>false\<close>, so the \<open>where\<close> clause never reads \<open>deletedAt\<close> and
  selects no row: alice, whose file and folder are both in the trash, gets two
  empty lists.
\<close>

theorem trash_listing_is_empty:
  "db_files trashed_db = [alice_file\<lparr> file_deletedAt := Some 9 \<rparr>]
   \<and> db_folders trashed_db = [alice_folder\<lparr> folder_deletedAt := Some 8 \<rparr>, bob_folder]
   \<and> file_ownerId alice_file = ''alice''
   \<and> folder_ownerId alice_folder = ''alice''
   \<and> getTrashItems ''alice'' trashed_db = \<lparr> trash_files = [], trash_folders = [] \<rparr>"
  by (simp add: getTrashItems_def and_conditions_def strict_equals_false_def example_defs)


section \<open>Listing by parent\<close>

text \<open>
  What the two queries return for every argument: each once, the rows of the owner
  that are not soft-deleted and whose parent is \<open>or_null\<close> of the requested one, in
  ascending order of their names (the lexicographic order of the characters; equal
  names keep the order of the table).
\<close>

lemma list_by_parent_or_null:
  "mset (getFilesByFolder folderId ownerId d)
     = filter_mset (\<lambda>r. file_ownerId r = ownerId \<and> file_folderId r = or_null folderId
                        \<and> file_deletedAt r = None) (mset (db_files d))
   \<and> sorted (map file_name (getFilesByFolder folderId ownerId d))
   \<and> mset (getFoldersByParent parentId ownerId d)
     = filter_mset (\<lambda>r. folder_ownerId r = ownerId \<and> folder_parentId r = or_null parentId
                        \<and> folder_deletedAt r = None) (mset (db_folders d))
   \<and> sorted (map folder_name (getFoldersByParent parentId ownerId d))"
  unfolding getFilesByFolder_def getFoldersByParent_def or_null_def
  by (auto intro!: filter_mset_cong)

text \<open>
  Claim C3. Called with a parent id or with \<open>null\<close> for the root, and an owner id,
  \<open>getFilesByFolder\<close> and \<open>getFoldersByParent\<close> return exactly the rows with that
  owner, that parent and \<open>deletedAt\<close> unset, each as often as the table holds it,
  in ascending order of the names: no row of another owner and no soft-deleted row
  is among them. A parent id is the id of a folder, a UUID that the database
  generates, and so not the empty string; the routes pass \<open>parent || null\<close>, which
  is never the empty string either.
\<close>

theorem list_by_parent_rows_and_order:
  assumes "parent \<noteq> Some []"
  shows "mset (getFilesByFolder parent ownerId d)
           = filter_mset (\<lambda>r. file_ownerId r = ownerId \<and> file_folderId r = parent
                              \<and> file_deletedAt r = None) (mset (db_files d))
       \<and> sorted (map file_name (getFilesByFolder parent ownerId d))
       \<and> mset (getFoldersByParent parent ownerId d)
           = filter_mset (\<lambda>r. folder_ownerId r = ownerId \<and> folder_parentId r = parent
                              \<and> folder_deletedAt r = None) (mset (db_folders d))
       \<and> sorted (map folder_name (getFoldersByParent parent ownerId d))"
proof -
  from assms have "or_null parent = parent"
    by (cases parent) (simp_all add: or_null_def truthy_def)
  with list_by_parent_or_null [of parent ownerId d parent] show ?thesis
    by simp
qed

text \<open>
  At concrete inputs: alice lists her folder \<open>d1\<close> and the root. Bob's file and
  folder in \<open>d1\<close>, of the same names as hers, and her soft-deleted rows stay out.
\<close>

theorem list_by_parent_rows_and_order_witness:
  "Some ''d1'' \<noteq> Some ([] :: string)
   \<and> getFilesByFolder (Some ''d1'') ''alice'' listing_db
       = [alice_file\<lparr> file_id := ''f3'', file_name := ''alpha'', file_folderId := Some ''d1'' \<rparr>,
          alice_file\<lparr> file_id := ''f2'', file_name := ''zeta'', file_folderId := Some ''d1'' \<rparr>]
   \<and> sorted (map file_name (getFilesByFolder (Some ''d1'') ''alice'' listing_db))
   \<and> getFoldersByParent (Some ''d1'') ''alice'' listing_db
       = [alice_folder\<lparr> folder_id := ''d4'', folder_name := ''archive'',
                        folder_parentId := Some ''d1'' \<rparr>,
          alice_folder\<lparr> folder_id := ''d3'', folder_name := ''work'',
                        folder_parentId := Some ''d1'' \<rparr>]
   \<and> sorted (map folder_name (getFoldersByParent (Some ''d1'') ''alice'' listing_db))
   \<and> getFilesByFolder None ''alice'' listing_db = [alice_file]
   \<and> getFoldersByParent None ''alice'' listing_db = [alice_folder]"
proof -
  have h: "Some ''d1'' \<noteq> Some ([] :: string)" by simp
  have a: "''alpha'' \<le> ''zeta''" "''archive'' \<le> ''work''"
    by (simp_all add: less_eq_char_def)
  have f: "getFilesByFolder (Some ''d1'') ''alice'' listing_db
       = [alice_file\<lparr> file_id := ''f3'', file_name := ''alpha'', file_folderId := Some ''d1'' \<rparr>,
          alice_file\<lparr> file_id := ''f2'', file_name := ''zeta'', file_folderId := Some ''d1'' \<rparr>]"
    using a by (simp add: getFilesByFolder_def truthy_def example_defs)
  have g: "getFoldersByParent (Some ''d1'') ''alice'' listing_db
       = [alice_folder\<lparr> folder_id := ''d4'', folder_name := ''archive'',
                        folder_parentId := Some ''d1'' \<rparr>,
          alice_folder\<lparr> folder_id := ''d3'', folder_name := ''work'',
                        folder_parentId := Some ''d1'' \<rparr>]"
    using a by (simp add: getFoldersByParent_def truthy_def example_defs)
  have r: "getFilesByFolder None ''alice'' listing_db = [alice_file]"
    "getFoldersByParent None ''alice'' listing_db = [alice_folder]"
    by (simp_all add: getFilesByFolder_def getFoldersByParent_def truthy_def example_defs)
  from list_by_parent_rows_and_order [OF h, of "''alice''" listing_db] h a f g r
  show ?thesis by simp
qed

section \<open>Share links\<close>

text \<open>
  What \<open>POST /api/shares\<close> does with every request whose expiry date, if given, is
  well-formed, the two generated ids being fresh: it inserts one share-link row for
  the resource id that the body names, with the requesting user as creator and the
  SHA-256 digest in place of a non-empty password, and answers 200. The tables of
  files and folders are not read.
\<close>

lemma POST_shares_inserts_link:
  assumes "case sb_expiresAt reqBody of None \<Rightarrow> True | Some x \<Rightarrow> parse_datetime pf x \<noteq> None"
      and "env_rowId e \<notin> set (map share_id (db_shareLinks (db w)))"
      and "env_auditId e \<notin> set (map audit_id (db_auditLogs (db w)))"
  shows "fst (POST_api_shares pf cfg e user reqBody w)
           = Status 200
               (ShareJson (env_rowId e)
                  ((case or_null (SHARE_BASE_URL cfg) of
                      None \<Rightarrow> ''http://localhost:5000'' | Some u \<Rightarrow> u) @ ''/s/'' @ env_rowId e)
                  (case or_null (sb_expiresAt reqBody) of
                     None \<Rightarrow> None | Some x \<Rightarrow> parse_datetime pf x)
                  (case sb_allowDownload reqBody of None \<Rightarrow> True | Some a \<Rightarrow> a))
       \<and> db_shareLinks (db (snd (POST_api_shares pf cfg e user reqBody w)))
           = db_shareLinks (db w) @
             [\<lparr> share_id = env_rowId e,
                share_resourceType = sb_resourceType reqBody,
                share_resourceId = sb_resourceId reqBody,
                share_passwordHash = (case or_null (sb_password reqBody) of
                                        None \<Rightarrow> None | Some pw \<Rightarrow> Some (sha256_hex pf pw)),
                share_expiresAt = (case or_null (sb_expiresAt reqBody) of
                                     None \<Rightarrow> None | Some x \<Rightarrow> parse_datetime pf x),
                share_allowDownload = (case sb_allowDownload reqBody of None \<Rightarrow> True | Some a \<Rightarrow> a),
                share_createdBy = user,
                share_createdAt = env_now e \<rparr>]"
  using assms
  unfolding POST_api_shares_def
  by (auto simp: async_defs createShareLink_def createAuditLog_def Let_def
        split: option.splits)

text \<open>
  Claim C4 is right and \<open>POST /api/shares\<close> is wrong. The route has no check of the
  resource, where every route on a file or a folder compares the owner with the
  requesting user. Bob asks for a link to alice's file \<open>f1\<close>, and for a link to a
  folder that does not exist: each request is answered with 200 and a link, and
  leaves a share-link row with bob as creator, where the claim has \<open>Unauthorized\<close>,
  \<open>NotFound\<close> and no row.
\<close>

theorem share_created_for_foreign_resource:
  "map_option file_ownerId (getFileById ''f1'' (db example_world)) = Some ''alice''
   \<and> fst (POST_api_shares example_platform local_config example_entropy ''bob''
            \<lparr> sb_resourceType = TFile, sb_resourceId = ''f1'', sb_expiresAt = None,
              sb_password = None, sb_allowDownload = None \<rparr> example_world)
       = Status 200 (ShareJson ''r1'' ''http://localhost:5000/s/r1'' None True)
   \<and> db_shareLinks (db (snd (POST_api_shares example_platform local_config example_entropy ''bob''
            \<lparr> sb_resourceType = TFile, sb_resourceId = ''f1'', sb_expiresAt = None,
              sb_password = None, sb_allowDownload = None \<rparr> example_world)))
       = [\<lparr> share_id = ''r1'', share_resourceType = TFile, share_resourceId = ''f1'',
            share_passwordHash = None, share_expiresAt = None, share_allowDownload = True,
            share_createdBy = ''bob'', share_createdAt = 20 \<rparr>]
   \<and> getFolderById ''missing'' (db example_world) = None
   \<and> fst (POST_api_shares example_platform local_config later_entropy ''bob''
            \<lparr> sb_resourceType = TFolder, sb_resourceId = ''missing'', sb_expiresAt = None,
              sb_password = None, sb_allowDownload = None \<rparr> example_world)
       = Status 200 (ShareJson ''r2'' ''http://localhost:5000/s/r2'' None True)
   \<and> db_shareLinks (db (snd (POST_api_shares example_platform local_config later_entropy ''bob''
            \<lparr> sb_resourceType = TFolder, sb_resourceId = ''missing'', sb_expiresAt = None,
              sb_password = None, sb_allowDownload = None \<rparr> example_world)))
       = [\<lparr> share_id = ''r2'', share_resourceType = TFolder, share_resourceId = ''missing'',
            share_passwordHash = None, share_expiresAt = None, share_allowDownload = True,
            share_createdBy = ''bob'', share_createdAt = 30 \<rparr>]"
  unfolding POST_api_shares_def
  by (simp add: async_defs createShareLink_def createAuditLog_def Let_def getFileById_def
        getFolderById_def or_null_def truthy_def example_defs)

section \<open>Folders and their parents\<close>

text \<open>
  What the two routes do with an existing parent, whoever owns it.
  \<open>POST /api/folders\<close> inserts the folder with the requesting user as owner and the
  parent asked for; \<open>PATCH /api/folders/:id\<close> checks that the moved folder belongs
  to the requesting user and gives it the parent asked for. Neither reads the owner
  of the parent.
\<close>

lemma POST_folders_any_parent:
  assumes "z_name name" and "p \<noteq> []"
      and "getFolderById p (db w) = Some parent"
      and "env_rowId e \<notin> set (map folder_id (db_folders (db w)))"
      and "env_auditId e \<notin> set (map audit_id (db_auditLogs (db w)))"
  shows "fst (POST_api_folders e user \<lparr> fb_name = Some name, fb_parentId = Some p \<rparr> w)
           = Status 201 (FolderJson (Some
               \<lparr> folder_id = env_rowId e, folder_name = name, folder_parentId = Some p,
                 folder_ownerId = user, folder_createdAt = env_now e,
                 folder_updatedAt = env_now e, folder_deletedAt = None \<rparr>))
       \<and> db_folders (db (snd (POST_api_folders e user \<lparr> fb_name = Some name, fb_parentId = Some p \<rparr> w)))
           = db_folders (db w) @
               [\<lparr> folder_id = env_rowId e, folder_name = name, folder_parentId = Some p,
                  folder_ownerId = user, folder_createdAt = env_now e,
                  folder_updatedAt = env_now e, folder_deletedAt = None \<rparr>]"
proof -
  from assms(3) have pin: "p \<in> folder_id ` set (db_folders (db w))"
    unfolding getFolderById_def by (rule find_folder_Some_id)
  show ?thesis
    using assms(1,2,4,5) pin
    unfolding POST_api_folders_def
    by (simp add: async_defs createFolder_def createAuditLog_def or_null_def truthy_def Let_def)
qed

lemma PATCH_folders_any_parent:
  assumes "getFolderById i (db w) = Some g" and "folder_ownerId g = user"
      and "getFolderById p (db w) = Some parent"
      and "env_auditId e \<notin> set (map audit_id (db_auditLogs (db w)))"
  shows "fst (PATCH_api_folders_id e user i \<lparr> updF_name = None, updF_parentId = Some p \<rparr> w)
           = Status 200 (FolderJson (Some
               (g\<lparr> folder_parentId := Some p, folder_updatedAt := env_now e \<rparr>)))
       \<and> getFolderById i (db (snd (PATCH_api_folders_id e user i
                                      \<lparr> updF_name = None, updF_parentId = Some p \<rparr> w)))
           = Some (g\<lparr> folder_parentId := Some p, folder_updatedAt := env_now e \<rparr>)"
proof -
  from assms(3) have pin: "p \<in> folder_id ` set (db_folders (db w))"
    unfolding getFolderById_def by (rule find_folder_Some_id)
  show ?thesis
    using assms(1,2,4) pin
    unfolding PATCH_api_folders_id_def
    by (simp add: async_defs updateFolder_def createAuditLog_def getFolderById_def Let_def
          find_folder_update)
qed

text \<open>
  Claim C7 is right and the two routes are wrong. \<open>PATCH /api/folders/:id\<close> checks
  the owner of the folder it moves and not the owner of the folder it moves it to,
  and \<open>POST /api/folders\<close> checks no owner at all. Bob creates the folder \<open>notes\<close>
  in alice's folder \<open>d1\<close> and moves his folder \<open>d2\<close> there: the requests are
  answered with 201 and 200, where the claim has \<open>InvalidInput\<close>, and afterwards
  two folders of bob have a parent that is alice's.
\<close>

theorem folder_created_under_foreign_parent:
  "map_option folder_ownerId (getFolderById ''d1'' (db example_world)) = Some ''alice''
   \<and> fst (POST_api_folders example_entropy ''bob''
            \<lparr> fb_name = Some ''notes'', fb_parentId = Some ''d1'' \<rparr> example_world)
       = Status 201 (FolderJson (Some
           \<lparr> folder_id = ''r1'', folder_name = ''notes'', folder_parentId = Some ''d1'',
             folder_ownerId = ''bob'', folder_createdAt = 20, folder_updatedAt = 20,
             folder_deletedAt = None \<rparr>))
   \<and> getFolderById ''r1''
        (db (snd (POST_api_folders example_entropy ''bob''
                    \<lparr> fb_name = Some ''notes'', fb_parentId = Some ''d1'' \<rparr> example_world)))
       = Some \<lparr> folder_id = ''r1'', folder_name = ''notes'', folder_parentId = Some ''d1'',
                folder_ownerId = ''bob'', folder_createdAt = 20, folder_updatedAt = 20,
                folder_deletedAt = None \<rparr>
   \<and> fst (PATCH_api_folders_id example_entropy ''bob'' ''d2''
            \<lparr> updF_name = None, updF_parentId = Some ''d1'' \<rparr> example_world)
       = Status 200 (FolderJson (Some
           (bob_folder\<lparr> folder_parentId := Some ''d1'', folder_updatedAt := 20 \<rparr>)))
   \<and> getFolderById ''d2''
        (db (snd (PATCH_api_folders_id example_entropy ''bob'' ''d2''
                    \<lparr> updF_name = None, updF_parentId = Some ''d1'' \<rparr> example_world)))
       = Some (bob_folder\<lparr> folder_parentId := Some ''d1'', folder_updatedAt := 20 \<rparr>)
   \<and> folder_ownerId bob_folder = ''bob''"
  unfolding POST_api_folders_def PATCH_api_folders_id_def
  by (simp add: async_defs createFolder_def updateFolder_def createAuditLog_def getFolderById_def
        z_name_def or_null_def truthy_def Let_def example_defs)

section \<open>Operations on a file in the trash\<close>












end
